theory Spec2Isabelle
  imports Main "HOL-Library.AList"
begin

section \<open>JavaScript values\<close>

text \<open>
  The values that flow through the two Koa middleware of graphql-api-koa: request
  bodies, option objects, what an override function resolves to, execution data.
  An object is its list of own enumerable properties, in the order \<open>Object.keys\<close>
  reports them. \<open>JFun n\<close> is a function value (its behaviour is given by the
  environment, see \<open>apply_fn\<close> below); \<open>JInstance c ps\<close> is an object built by the class
  \<open>c\<close>, so a \<open>GraphQLSchema\<close> instance is \<open>JInstance ''GraphQLSchema'' ps\<close>.
  Numbers are integers here: nothing below depends on fractions.
\<close>

datatype jsval =
    JUndefined
  | JNull
  | JBool bool
  | JNum int
  | JStr string
  | JArr "jsval list"
  | JObj "(string \<times> jsval) list"
  | JFun nat
  | JInstance string "(string \<times> jsval) list"

type_synonym props = "(string \<times> jsval) list"

fun typeof :: "jsval \<Rightarrow> string" where
  "typeof JUndefined = ''undefined''"
| "typeof JNull = ''object''"
| "typeof (JBool b) = ''boolean''"
| "typeof (JNum n) = ''number''"
| "typeof (JStr s) = ''string''"
| "typeof (JArr xs) = ''object''"
| "typeof (JObj ps) = ''object''"
| "typeof (JFun f) = ''function''"
| "typeof (JInstance c ps) = ''object''"

fun isArray :: "jsval \<Rightarrow> bool" where
  "isArray (JArr xs) = True"
| "isArray v = False"

text \<open>JavaScript truthiness, as tested by \<open>if (v)\<close> and \<open>!v\<close>.\<close>

fun truthy :: "jsval \<Rightarrow> bool" where
  "truthy JUndefined = False"
| "truthy JNull = False"
| "truthy (JBool b) = b"
| "truthy (JNum n) = (n \<noteq> 0)"
| "truthy (JStr s) = (s \<noteq> [])"
| "truthy v = True"

text \<open>
  Own enumerable properties of an object. The source reads properties and keys only of
  values that passed the object check, so the value at anything else is never used.
\<close>

fun props_of :: "jsval \<Rightarrow> props" where
  "props_of (JObj ps) = ps"
| "props_of (JInstance c ps) = ps"
| "props_of v = []"

definition Object_keys :: "jsval \<Rightarrow> string list" where
  "Object_keys v = map fst (props_of v)"

text \<open>\<open>o.k\<close>: the property's value, \<open>undefined\<close> when the object has no such property.\<close>

definition get_prop :: "props \<Rightarrow> string \<Rightarrow> jsval" where
  "get_prop ps k = (case map_of ps k of Some v \<Rightarrow> v | None \<Rightarrow> JUndefined)"

definition get :: "jsval \<Rightarrow> string \<Rightarrow> jsval" where
  "get v k = get_prop (props_of v) k"

text \<open>\<open>k in o\<close>, for the keys at hand (none of them is on \<open>Object.prototype\<close>).\<close>

definition has_key :: "string \<Rightarrow> jsval \<Rightarrow> bool" where
  "has_key k v = (k \<in> set (Object_keys v))"

text \<open>
  Object spread \<open>{ ...a, ...b }\<close>: every property of \<open>b\<close> is written over \<open>a\<close>, whatever
  its value (also \<open>undefined\<close>).
\<close>

definition spread :: "props \<Rightarrow> props \<Rightarrow> props" where
  "spread a b = AList.merge a b"

text \<open>\<open>xs.join(sep)\<close> on an array of strings.\<close>

fun join :: "string \<Rightarrow> string list \<Rightarrow> string" where
  "join sep [] = []"
| "join sep [x] = x"
| "join sep (x # y # ys) = x @ sep @ join sep (y # ys)"

section \<open>Errors\<close>

text \<open>
  A GraphQL error as the engine reports it (validation, schema validation, resolver
  errors); absent fields are \<open>JUndefined\<close>.
\<close>

record graphql_error =
  gql_message :: string
  gql_locations :: jsval
  gql_path :: jsval
  gql_extensions :: jsval

text \<open>
  The error objects the middleware throw: an HTTP status, a message, whether the message
  may reach the client, and the simultaneous GraphQL errors when there are some.
\<close>

record http_error =
  status :: int
  message :: string
  expose :: bool
  graphqlErrors :: "graphql_error list option"

text \<open>
  Modelled from the spec: \<open>createError\<close> is the package http-errors, imported by
  index.mjs and not part of this repository. Section 3 of the specification gives the
  shape of a StructuredError and section 7 its exposure: configuration errors (no status
  given, so 500) are never exposed, the statuses 400 and 200 are. That is the rule of
  http-errors, \<open>expose = status < 500\<close>. A call without a status is written with
  the default 500.
\<close>

definition createError :: "int \<Rightarrow> string \<Rightarrow> graphql_error list option \<Rightarrow> http_error" where
  "createError st msg gqlErrors =
     \<lparr>status = st, message = msg, expose = (st < 500), graphqlErrors = gqlErrors\<rparr>"

text \<open>
  Modelled from the spec: \<open>./createHttpError\<close>, imported by execute.mjs, is not among the
  sources. The changelog (1.1.1) introduces it to silence a deprecation warning of
  http-errors for the status 200; it builds the same error as \<open>createError\<close>.
\<close>

definition createHttpError :: "int \<Rightarrow> string \<Rightarrow> graphql_error list option \<Rightarrow> http_error" where
  "createHttpError st msg gqlErrors = createError st msg gqlErrors"

text \<open>\<open>createError()\<close>: the generic error of status 500, with the status text as message.\<close>

definition createError_generic :: http_error where
  "createError_generic = createError 500 ''Internal Server Error'' None"

text \<open>
  What a middleware can throw.
  \<^item> \<open>HttpError e\<close>: an error built by \<open>createError(status, message, props)\<close> of
    http-errors (or by \<open>createHttpError\<close>). With a status from 400 to 599 it is an
    instance of the class http-errors has for that status; for any other status
    http-errors has no class, and the error is a plain \<open>Error\<close> with these properties.
  \<open>props\<close> may set \<open>expose\<close> either way.
  \<^item> \<open>PlainError e\<close>: an \<open>Error\<close> of any other class that carries these properties, as
    \<open>Object.assign(new Error(message), { status })\<close> does.
  \<^item> \<open>OtherThrown m\<close>: an \<open>Error\<close> without a status (a \<open>TypeError\<close>, what the engine
    throws), or a raw string; only the message is kept. Raw values of other types are not
    represented.
\<close>

datatype thrown = HttpError http_error | PlainError http_error | OtherThrown string

text \<open>
  \<open>createError(error)\<close>, the coercion of http-errors (1.7, the version of package.json)
  that \<open>errorHandler\<close> calls on what it caught. It keeps the error's own status when
  that is a status it knows (every status from 400 to 599, and below 400 the codes of the
  package statuses) and takes 500 otherwise. Then, unless the error is an instance of the
  class http-errors has for that status, it overwrites the error's flag:
  \<open>err.expose = status < 500\<close>. The message and the other properties stay.
\<close>

definition non_error_status :: "int \<Rightarrow> bool" where
  "non_error_status st \<longleftrightarrow>
     (100 \<le> st \<and> st \<le> 103) \<or> (200 \<le> st \<and> st \<le> 208) \<or> st = 226 \<or> (300 \<le> st \<and> st \<le> 308)"

definition coerced_status :: "int \<Rightarrow> int" where
  "coerced_status st = (if (400 \<le> st \<and> st < 600) \<or> non_error_status st then st else 500)"

fun createError_coerce :: "thrown \<Rightarrow> http_error" where
  "createError_coerce (HttpError e) =
     (if 400 \<le> status e \<and> status e < 600 then e
      else e\<lparr>status := coerced_status (status e),
             expose := (coerced_status (status e) < 500)\<rparr>)"
| "createError_coerce (PlainError e) =
     e\<lparr>status := coerced_status (status e), expose := (coerced_status (status e) < 500)\<rparr>"
| "createError_coerce (OtherThrown m) = createError 500 m None"

section \<open>The GraphQL engine and the Koa context\<close>

record exec_args =
  schema :: jsval
  rootValue :: jsval
  contextValue :: jsval
  fieldResolver :: jsval
  document :: jsval
  variableValues :: jsval
  operationName :: jsval

record exec_result =
  data :: jsval
  errors :: "graphql_error list option"

text \<open>
  Calls to the collaborators, in the order a request makes them. The trace is what the
  statements about order (what happens before what, what is never invoked) are stated on.
\<close>

datatype call =
    CallParse jsval
  | CallOverride nat
  | CallCheckSchema jsval
  | CallValidate jsval jsval
  | CallExecute exec_args

text \<open>
  The Koa context: the parsed request body (\<open>JUndefined\<close> when no body parser ran), the
  response status and body (\<open>None\<close>: no body yet; a body written by these middleware is
  an object), the \<open>error\<close> events emitted on \<open>ctx.app\<close>, and the trace.
\<close>

record ctx =
  request_body :: jsval
  response_status :: int
  response_body :: "props option"
  app_errors :: "thrown list"
  calls :: "call list"

text \<open>
  The functions of the package graphql, and the application of a function value.
  \<open>parse\<close> stands for \<open>parse(new Source(query))\<close>; \<open>Inl m\<close> is a thrown error with
  message \<open>m\<close>.
\<close>

record graphql =
  parse :: "jsval \<Rightarrow> string + jsval"
  validateSchema :: "jsval \<Rightarrow> graphql_error list"
  validate :: "jsval \<Rightarrow> jsval \<Rightarrow> string + graphql_error list"
  executeGraphQL :: "exec_args \<Rightarrow> string + exec_result"
  apply_fn :: "nat \<Rightarrow> ctx \<Rightarrow> thrown + jsval"

text \<open>A middleware runs on the context and either completes or throws.\<close>

type_synonym middleware = "ctx \<Rightarrow> thrown option \<times> ctx"

definition trace_call :: "call \<Rightarrow> ctx \<Rightarrow> ctx" where
  "trace_call c x = x\<lparr>calls := calls x @ [c]\<rparr>"

section \<open>index.mjs: the helpers\<close>

definition isPlainObject :: "jsval \<Rightarrow> bool" where
  "isPlainObject v = (typeof v = ''object'' \<and> v \<noteq> JNull \<and> \<not> isArray v)"

text \<open>\<open>checkOptions\<close> (index.mjs, 259-268); \<open>Some e\<close>: it throws \<open>e\<close>.\<close>

definition checkOptions :: "jsval \<Rightarrow> string list \<Rightarrow> string \<Rightarrow> http_error option" where
  "checkOptions options allowed description =
     (let invalid = filter (\<lambda>option. option \<notin> set allowed) (Object_keys options)
      in if invalid \<noteq> []
         then Some (createError 500
                (description @ '' options invalid: `'' @ join ''`, `'' invalid @ ''`.'') None)
         else None)"

text \<open>\<open>checkSchema\<close> (index.mjs, 277-288).\<close>

definition instanceof_GraphQLSchema :: "jsval \<Rightarrow> bool" where
  "instanceof_GraphQLSchema v = (case v of JInstance c ps \<Rightarrow> c = ''GraphQLSchema'' | _ \<Rightarrow> False)"

definition checkSchema :: "graphql \<Rightarrow> jsval \<Rightarrow> http_error option" where
  "checkSchema env s =
     (if \<not> instanceof_GraphQLSchema s
      then Some (createError 500
             ''GraphQL schema is required and must be a `GraphQLSchema` instance.'' None)
      else let schemaValidationErrors = validateSchema env s
           in if schemaValidationErrors \<noteq> []
              then Some (createError 500 ''GraphQL schema validation errors.''
                     (Some schemaValidationErrors))
              else None)"

section \<open>index.mjs: errorHandler\<close>

text \<open>
  Modelled from the spec: \<open>formatError\<close> is the package graphql's (section 6:
  \<open>formatError(error) -> {message, locations?, path?, extensions?}\<close>). It copies the
  message, the locations and the path, and the extensions when there are some.
\<close>

definition formatError :: "graphql_error \<Rightarrow> jsval" where
  "formatError e =
     (let fields = [(''message'', JStr (gql_message e)),
                    (''locations'', gql_locations e),
                    (''path'', gql_path e)]
      in if truthy (gql_extensions e)
         then JObj (fields @ [(''extensions'', gql_extensions e)])
         else JObj fields)"

text \<open>
  \<open>formatError(httpError)\<close>: an \<open>http_error\<close> has a message and neither locations,
  path nor extensions.
\<close>

definition as_graphql_error :: "http_error \<Rightarrow> graphql_error" where
  "as_graphql_error e =
     \<lparr>gql_message = message e, gql_locations = JUndefined, gql_path = JUndefined,
      gql_extensions = JUndefined\<rparr>"

text \<open>\<open>errorHandler\<close> (index.mjs, 86-114). It never throws itself.\<close>

definition errorHandler :: "middleware \<Rightarrow> middleware" where
  "errorHandler next x =
     (case next x of
        (None, x') \<Rightarrow> (None, x')
      | (Some error, x') \<Rightarrow>
          (let httpError = createError_coerce error;
               httpError = (if \<not> expose httpError then createError_generic else httpError);
               x1 = x'\<lparr>response_status := status httpError\<rparr>;
               body = (case response_body x1 of None \<Rightarrow> [] | Some b \<Rightarrow> b);
               formatted = (case graphqlErrors httpError of
                              Some gqlErrors \<Rightarrow> map formatError gqlErrors
                            | None \<Rightarrow> [formatError (as_graphql_error httpError)]);
               x2 = x1\<lparr>response_body := Some (AList.update ''errors'' (JArr formatted) body)\<rparr>
           in (None, x2\<lparr>app_errors := app_errors x2 @ [error]\<rparr>)))"

section \<open>index.mjs: execute\<close>

text \<open>
  index.mjs holds the single-file form of the \<open>execute\<close> middleware (137-237);
  execute.mjs below is its successor. Both are embedded; this one is \<open>index_execute\<close>.
  The middleware is embedded block by block, in the order of the source; a block returns
  \<open>Inl\<close> of what it throws, with the context as it is at the throw.
\<close>

definition ALLOWED_OPTIONS :: "string list" where
  "ALLOWED_OPTIONS = [''schema'', ''rootValue'', ''contextValue'', ''fieldResolver'', ''override'']"

text \<open>Lines 165-180: the request body and the parsed document.\<close>

definition index_document :: "graphql \<Rightarrow> ctx \<Rightarrow> (thrown + jsval) \<times> ctx" where
  "index_document env x =
     (if typeof (request_body x) = ''undefined''
      then (Inl (HttpError (createError 500 ''Request body missing.'' None)), x)
      else if \<not> isPlainObject (request_body x)
      then (Inl (HttpError (createError 400 ''Request body must be a JSON object.'' None)), x)
      else if \<not> has_key ''query'' (request_body x)
      then (Inl (HttpError (createError 400 ''GraphQL operation field `query` missing.'' None)), x)
      else
        (let x1 = trace_call (CallParse (get (request_body x) ''query'')) x
         in case parse env (get (request_body x) ''query'') of
              Inl m \<Rightarrow> (Inl (HttpError (createError 400
                          (''GraphQL query syntax error: '' @ m) None)), x1)
            | Inr doc \<Rightarrow> (Inr doc, x1)))"

text \<open>Lines 182-200: the override of the request.\<close>

definition index_optionsOverride :: "graphql \<Rightarrow> jsval \<Rightarrow> ctx \<Rightarrow> (thrown + jsval) \<times> ctx" where
  "index_optionsOverride env options x =
     (if truthy (get options ''override'')
      then (case get options ''override'' of
              JFun f \<Rightarrow>
                (let x1 = trace_call (CallOverride f) x
                 in case apply_fn env f x of
                      Inl t \<Rightarrow> (Inl t, x1)
                    | Inr optionsOverride \<Rightarrow>
                        if \<not> isPlainObject optionsOverride
                        then (Inl (HttpError (createError 500
                               ''GraphQL execute middleware options must be an object, or an object promise.''
                               None)), x1)
                        else (case checkOptions optionsOverride
                                     (filter (\<lambda>option. option \<noteq> ''override'') ALLOWED_OPTIONS)
                                     ''GraphQL execute middleware `override` option return'' of
                                Some e \<Rightarrow> (Inl (HttpError e), x1)
                              | None \<Rightarrow>
                                  if typeof (get optionsOverride ''schema'') \<noteq> ''undefined''
                                  then (let x2 = trace_call
                                                   (CallCheckSchema (get optionsOverride ''schema'')) x1
                                        in case checkSchema env (get optionsOverride ''schema'') of
                                             Some e \<Rightarrow> (Inl (HttpError e), x2)
                                           | None \<Rightarrow> (Inr optionsOverride, x2))
                                  else (Inr optionsOverride, x1)))
            | _ \<Rightarrow> (Inl (OtherThrown ''options.override is not a function''), x))
      else (Inr (JObj []), x))"

text \<open>
  Lines 202-208 and the argument of the call at 213-218: merging and query validation.
  \<open>executeGraphQL\<close> receives the merged options and the three request fields in one
  object; the engine reads the seven fields of \<open>exec_args\<close> from it.
\<close>

definition index_validate ::
  "graphql \<Rightarrow> jsval \<Rightarrow> jsval \<Rightarrow> jsval \<Rightarrow> ctx \<Rightarrow> (thrown + exec_args) \<times> ctx" where
  "index_validate env options optionsOverride doc x =
     (let execute = spread (props_of options) (props_of optionsOverride);
          x1 = trace_call (CallValidate (get_prop execute ''schema'') doc) x
      in case validate env (get_prop execute ''schema'') doc of
           Inl m \<Rightarrow> (Inl (OtherThrown m), x1)
         | Inr queryValidationErrors \<Rightarrow>
             if queryValidationErrors \<noteq> []
             then (Inl (HttpError (createError 400 ''GraphQL query validation errors.''
                          (Some queryValidationErrors))), x1)
             else (Inr \<lparr>schema = get_prop execute ''schema'',
                        rootValue = get_prop execute ''rootValue'',
                        contextValue = get_prop execute ''contextValue'',
                        fieldResolver = get_prop execute ''fieldResolver'',
                        document = doc,
                        variableValues = get (request_body x) ''variables'',
                        operationName = get (request_body x) ''operationName''\<rparr>, x1))"

text \<open>Lines 210-235: the execution and the response.\<close>

definition index_run :: "graphql \<Rightarrow> exec_args \<Rightarrow> middleware \<Rightarrow> middleware" where
  "index_run env args next x =
     (let x1 = trace_call (CallExecute args) x
      in case executeGraphQL env args of
           Inl m \<Rightarrow> (Some (HttpError (createError 400
                       (''GraphQL operation field invalid: '' @ m) None)), x1)
         | Inr result \<Rightarrow>
             (let x2 = (if truthy (data result)
                        then x1\<lparr>response_body := Some [(''data'', data result)]\<rparr>
                        else x1)
              in case errors result of
                   Some es \<Rightarrow> (Some (HttpError (createError 200 ''GraphQL errors.'' (Some es))), x2)
                 | None \<Rightarrow> next (x2\<lparr>response_status := 200\<rparr>)))"

text \<open>Lines 164-236: the middleware that \<open>execute(options)\<close> returns.\<close>

definition index_prepare :: "graphql \<Rightarrow> jsval \<Rightarrow> ctx \<Rightarrow> (thrown + exec_args) \<times> ctx" where
  "index_prepare env options x =
     (case index_document env x of
        (Inl t, x1) \<Rightarrow> (Inl t, x1)
      | (Inr doc, x1) \<Rightarrow>
          (case index_optionsOverride env options x1 of
             (Inl t, x2) \<Rightarrow> (Inl t, x2)
           | (Inr optionsOverride, x2) \<Rightarrow>
               index_validate env options optionsOverride doc x2))"

definition index_execute_middleware :: "graphql \<Rightarrow> jsval \<Rightarrow> middleware \<Rightarrow> middleware" where
  "index_execute_middleware env options next x =
     (case index_prepare env options x of
        (Inl t, x1) \<Rightarrow> (Some t, x1)
      | (Inr args, x1) \<Rightarrow> index_run env args next x1)"

text \<open>Lines 137-163: the setup; \<open>Inl e\<close>: it throws \<open>e\<close>.\<close>

definition index_execute :: "graphql \<Rightarrow> jsval \<Rightarrow> http_error + (middleware \<Rightarrow> middleware)" where
  "index_execute env options =
     (if typeof options = ''undefined''
      then Inl (createError 500 ''GraphQL execute middleware options missing.'' None)
      else if \<not> isPlainObject options
      then Inl (createError 500 ''GraphQL execute middleware options must be an object.'' None)
      else case checkOptions options ALLOWED_OPTIONS ''GraphQL execute middleware'' of
             Some e \<Rightarrow> Inl e
           | None \<Rightarrow>
              (case (if typeof (get options ''schema'') \<noteq> ''undefined''
                     then checkSchema env (get options ''schema'') else None) of
                 Some e \<Rightarrow> Inl e
               | None \<Rightarrow>
                   if typeof (get options ''override'') \<noteq> ''undefined'' \<and>
                      typeof (get options ''override'') \<noteq> ''function''
                   then Inl (createError 500
                          ''GraphQL execute middleware `override` option must be a function.'' None)
                   else Inr (index_execute_middleware env options)))"

section \<open>execute.mjs\<close>

text \<open>
  execute.mjs imports four helpers of the repository that are not among the sources. Two of them
  are the functions of index.mjs above (\<open>checkSchema\<close> as it is, \<open>checkOptions\<close> for the
  key check); the others are modelled as follows.
\<close>

text \<open>
  Modelled from the spec: \<open>./isEnumerableObject\<close> is not among the
  sources. Section 4.1: true
  iff the value is a non-null, non-array object. It is \<open>isPlainObject\<close> of index.mjs
  renamed (changelog, 2.2.0).
\<close>

definition isEnumerableObject :: "jsval \<Rightarrow> bool" where
  "isEnumerableObject v = (typeof v = ''object'' \<and> v \<noteq> JNull \<and> \<not> isArray v)"

text \<open>
  Modelled from the spec: \<open>./checkOptions\<close>, as execute.mjs imports it, is not among the
  sources. Section 4.2, step 5: the override's result must be an enumerable object or the
  request fails with a non-exposed configuration error, and its keys are validated against
  the allow-list. index.mjs makes the object check in \<open>execute\<close> itself (141, 187);
  execute.mjs has no such check, the changelog (2.2.0) having moved it into this helper.
  The key check is \<open>checkOptions\<close> of index.mjs. The wording of the object check's
  message is not specified; no statement below depends on it.
\<close>

definition checkOptions_helper :: "jsval \<Rightarrow> string list \<Rightarrow> string \<Rightarrow> http_error option" where
  "checkOptions_helper options allowed description =
     (if \<not> isEnumerableObject options
      then Some (createHttpError 500
             (description @ '' options must be an enumerable object.'') None)
      else checkOptions options allowed description)"

definition ALLOWED_EXECUTE_OPTIONS :: "string list" where
  "ALLOWED_EXECUTE_OPTIONS =
     [''schema'', ''rootValue'', ''contextValue'', ''fieldResolver'', ''override'']"

text \<open>
  The middleware is embedded block by block, as \<open>index_execute\<close> is.
  Lines 60-75: the request body and the parsed document.
\<close>

definition execute_document :: "graphql \<Rightarrow> ctx \<Rightarrow> (thrown + jsval) \<times> ctx" where
  "execute_document env x =
     (if typeof (request_body x) = ''undefined''
      then (Inl (HttpError (createHttpError 500 ''Request body missing.'' None)), x)
      else if \<not> isEnumerableObject (request_body x)
      then (Inl (HttpError (createHttpError 400 ''Request body must be a JSON object.'' None)), x)
      else if \<not> has_key ''query'' (request_body x)
      then (Inl (HttpError (createHttpError 400
                   ''GraphQL operation field `query` missing.'' None)), x)
      else
        (let x1 = trace_call (CallParse (get (request_body x) ''query'')) x
         in case parse env (get (request_body x) ''query'') of
              Inl m \<Rightarrow> (Inl (HttpError (createHttpError 400
                          (''GraphQL query syntax error: '' @ m) None)), x1)
            | Inr doc \<Rightarrow> (Inr doc, x1)))"

text \<open>
  Lines 77-90: the override of the request; \<open>overrideOptions\<close> stays \<open>undefined\<close>
  without an override.
\<close>

definition overrideOptions_of :: "graphql \<Rightarrow> jsval \<Rightarrow> ctx \<Rightarrow> (thrown + jsval) \<times> ctx" where
  "overrideOptions_of env override x =
     (if truthy override
      then (case override of
              JFun f \<Rightarrow>
                (let x1 = trace_call (CallOverride f) x
                 in case apply_fn env f x of
                      Inl t \<Rightarrow> (Inl t, x1)
                    | Inr overrideOptions \<Rightarrow>
                        (case checkOptions_helper overrideOptions
                                (filter (\<lambda>option. option \<noteq> ''override'') ALLOWED_EXECUTE_OPTIONS)
                                ''GraphQL execute middleware `override` option resolved'' of
                           Some e \<Rightarrow> (Inl (HttpError e), x1)
                         | None \<Rightarrow>
                             if typeof (get overrideOptions ''schema'') \<noteq> ''undefined''
                             then (let x2 = trace_call
                                              (CallCheckSchema (get overrideOptions ''schema'')) x1
                                   in case checkSchema env (get overrideOptions ''schema'') of
                                        Some e \<Rightarrow> (Inl (HttpError e), x2)
                                      | None \<Rightarrow> (Inr overrideOptions, x2))
                             else (Inr overrideOptions, x1)))
            | _ \<Rightarrow> (Inl (OtherThrown ''override is not a function''), x))
      else (Inr JUndefined, x))"

text \<open>
  Lines 92-101 and the argument of the call at 106-114: merging, the required schema,
  query validation.
\<close>

definition requestOptions_of :: "props \<Rightarrow> jsval \<Rightarrow> props" where
  "requestOptions_of staticOptions overrideOptions =
     spread staticOptions (props_of overrideOptions)"

definition execute_validate ::
  "graphql \<Rightarrow> props \<Rightarrow> jsval \<Rightarrow> jsval \<Rightarrow> ctx \<Rightarrow> (thrown + exec_args) \<times> ctx" where
  "execute_validate env staticOptions overrideOptions doc x =
     (let requestOptions = requestOptions_of staticOptions overrideOptions
      in if typeof (get_prop requestOptions ''schema'') = ''undefined''
         then (Inl (HttpError (createHttpError 500 ''GraphQL schema is required.'' None)), x)
         else
           (let x1 = trace_call (CallValidate (get_prop requestOptions ''schema'') doc) x
            in case validate env (get_prop requestOptions ''schema'') doc of
                 Inl m \<Rightarrow> (Inl (OtherThrown m), x1)
               | Inr queryValidationErrors \<Rightarrow>
                   if queryValidationErrors \<noteq> []
                   then (Inl (HttpError (createHttpError 400 ''GraphQL query validation errors.''
                                (Some queryValidationErrors))), x1)
                   else (Inr \<lparr>schema = get_prop requestOptions ''schema'',
                              rootValue = get_prop requestOptions ''rootValue'',
                              contextValue = get_prop requestOptions ''contextValue'',
                              fieldResolver = get_prop requestOptions ''fieldResolver'',
                              document = doc,
                              variableValues = get (request_body x) ''variables'',
                              operationName = get (request_body x) ''operationName''\<rparr>, x1)))"

text \<open>Lines 103-131: the execution and the response.\<close>

definition execute_run :: "graphql \<Rightarrow> exec_args \<Rightarrow> middleware \<Rightarrow> middleware" where
  "execute_run env args next x =
     (let x1 = trace_call (CallExecute args) x
      in case executeGraphQL env args of
           Inl m \<Rightarrow> (Some (HttpError (createHttpError 400
                       (''GraphQL operation field invalid: '' @ m) None)), x1)
         | Inr result \<Rightarrow>
             (let x2 = (if truthy (data result)
                        then x1\<lparr>response_body := Some [(''data'', data result)]\<rparr>
                        else x1)
              in case errors result of
                   Some es \<Rightarrow> (Some (HttpError (createHttpError 200 ''GraphQL errors.''
                                 (Some es))), x2)
                 | None \<Rightarrow> next (x2\<lparr>response_status := 200\<rparr>)))"

text \<open>
  Lines 59-132: the middleware that \<open>execute(options)\<close> returns. \<open>execute_prepare\<close> is
  the three blocks before the execution, in order, stopping at the first throw; its
  result \<open>Inr args\<close> is the argument with which the request reaches the call of
  \<open>executeGraphQL\<close>.
\<close>

definition execute_prepare :: "graphql \<Rightarrow> jsval \<Rightarrow> props \<Rightarrow> ctx \<Rightarrow> (thrown + exec_args) \<times> ctx" where
  "execute_prepare env override staticOptions x =
     (case execute_document env x of
        (Inl t, x1) \<Rightarrow> (Inl t, x1)
      | (Inr doc, x1) \<Rightarrow>
          (case overrideOptions_of env override x1 of
             (Inl t, x2) \<Rightarrow> (Inl t, x2)
           | (Inr overrideOptions, x2) \<Rightarrow>
               execute_validate env staticOptions overrideOptions doc x2))"

definition execute_middleware :: "graphql \<Rightarrow> jsval \<Rightarrow> props \<Rightarrow> middleware \<Rightarrow> middleware" where
  "execute_middleware env override staticOptions next x =
     (case execute_prepare env override staticOptions x of
        (Inl t, x1) \<Rightarrow> (Some t, x1)
      | (Inr args, x1) \<Rightarrow> execute_run env args next x1)"

text \<open>
  Lines 44-58: the setup; \<open>Inl e\<close>: it throws \<open>e\<close>. The rest pattern
  \<open>{ override, ...staticOptions }\<close> keeps every property but \<open>override\<close>.
\<close>

definition staticOptions_of :: "jsval \<Rightarrow> props" where
  "staticOptions_of options = filter (\<lambda>(k, v). k \<noteq> ''override'') (props_of options)"

definition execute :: "graphql \<Rightarrow> jsval \<Rightarrow> http_error + (middleware \<Rightarrow> middleware)" where
  "execute env options =
     (if typeof options = ''undefined''
      then Inl (createHttpError 500 ''GraphQL execute middleware options missing.'' None)
      else case checkOptions_helper options ALLOWED_EXECUTE_OPTIONS
                  ''GraphQL execute middleware'' of
             Some e \<Rightarrow> Inl e
           | None \<Rightarrow>
              (case (if typeof (get options ''schema'') \<noteq> ''undefined''
                     then checkSchema env (get options ''schema'') else None) of
                 Some e \<Rightarrow> Inl e
               | None \<Rightarrow>
                   if typeof (get options ''override'') \<noteq> ''undefined'' \<and>
                      typeof (get options ''override'') \<noteq> ''function''
                   then Inl (createHttpError 500
                          ''GraphQL execute middleware `override` option must be a function.''
                          None)
                   else Inr (execute_middleware env (get options ''override'')
                               (staticOptions_of options))))"

section \<open>A small engine and a request, for evaluating the middleware\<close>

text \<open>
  One schema with the field \<open>hello\<close>; the query \<open>{ hello }\<close> resolves to \<open>world\<close>,
  \<open>{ boom }\<close> passes validation and has a resolver that throws, \<open>{ missingField }\<close>
  fails validation (twice when written twice), anything else is a syntax error.
  Function 0 is an override that sets the context value, function 1 one that returns
  \<open>{ schema: undefined }\<close>, function 2 one that returns the number 42, function 3 one
  that returns \<open>{ override: ... }\<close>, function 4 one that returns a schema that is not a
  \<open>GraphQLSchema\<close>.
\<close>

definition demo_schema :: jsval where
  "demo_schema = JInstance ''GraphQLSchema'' [(''_queryType'', JStr ''Query'')]"

definition demo_error :: "string \<Rightarrow> graphql_error" where
  "demo_error m = \<lparr>gql_message = m, gql_locations = JUndefined, gql_path = JUndefined,
                   gql_extensions = JUndefined\<rparr>"

definition demo_engine :: graphql where
  "demo_engine =
     \<lparr>parse = (\<lambda>q. if q \<in> {JStr ''{ hello }'', JStr ''{ boom }'', JStr ''{ missingField }'',
                           JStr ''{ missingField missingField }''}
                    then Inr q else Inl ''Syntax Error: Unexpected Name.''),
      validateSchema = (\<lambda>s. []),
      validate = (\<lambda>s d. if d = JStr ''{ missingField }''
                         then Inr [demo_error ''Cannot query field missingField.'']
                         else if d = JStr ''{ missingField missingField }''
                         then Inr [demo_error ''Cannot query field missingField (1).'',
                                   demo_error ''Cannot query field missingField (2).'']
                         else Inr []),
      executeGraphQL = (\<lambda>a. if document a = JStr ''{ boom }''
                             then Inr \<lparr>data = JObj [(''boom'', JNull)],
                                      errors = Some [demo_error ''Resolver failed.'']\<rparr>
                             else Inr \<lparr>data = JObj [(''hello'', JStr ''world'')], errors = None\<rparr>),
      apply_fn = (\<lambda>f x. if f = 0 then Inr (JObj [(''contextValue'', JStr ''user'')])
                         else if f = 1 then Inr (JObj [(''schema'', JUndefined)])
                         else if f = 2 then Inr (JNum 42)
                         else if f = 3 then Inr (JObj [(''override'', JFun 0)])
                         else Inr (JObj [(''schema'', JObj [])]))\<rparr>"

definition demo_ctx :: "jsval \<Rightarrow> ctx" where
  "demo_ctx body = \<lparr>request_body = body, response_status = 404, response_body = None,
                     app_errors = [], calls = []\<rparr>"

text \<open>The end of the chain: nothing follows the \<open>execute\<close> middleware.\<close>

definition noop :: middleware where
  "noop x = (None, x)"

section \<open>Facts about the helpers\<close>

lemma checkOptions_None_iff:
  "checkOptions options allowed description = None \<longleftrightarrow>
     set (Object_keys options) \<subseteq> set allowed"
  by (auto simp: checkOptions_def Let_def filter_empty_conv)

lemma checkOptions_Some_unexposed:
  "checkOptions options allowed description = Some e \<Longrightarrow> status e = 500 \<and> \<not> expose e"
  by (auto simp: checkOptions_def createError_def Let_def split: if_splits)

lemma checkSchema_message:
  "checkSchema env s = Some e \<Longrightarrow>
     message e = ''GraphQL schema is required and must be a `GraphQLSchema` instance.'' \<or>
     message e = ''GraphQL schema validation errors.''"
  by (auto simp: checkSchema_def createError_def Let_def split: if_splits)

lemma checkSchema_Some_unexposed:
  "checkSchema env s = Some e \<Longrightarrow> status e = 500 \<and> \<not> expose e"
  by (auto simp: checkSchema_def createError_def Let_def split: if_splits)

lemma checkOptions_eq:
  "checkOptions options allowed description =
     (if set (Object_keys options) \<subseteq> set allowed then None
      else Some \<lparr>status = 500,
                 message = description @ '' options invalid: `'' @
                   join ''`, `'' (filter (\<lambda>k. k \<notin> set allowed) (Object_keys options)) @ ''`.'',
                 expose = False, graphqlErrors = None\<rparr>)"
  by (auto simp: checkOptions_def Let_def filter_empty_conv createError_def)

lemma allowed_without_override:
  "filter (\<lambda>option. option \<noteq> ''override'') ALLOWED_EXECUTE_OPTIONS =
     [''schema'', ''rootValue'', ''contextValue'', ''fieldResolver'']"
  "filter (\<lambda>option. option \<noteq> ''override'') ALLOWED_OPTIONS =
     [''schema'', ''rootValue'', ''contextValue'', ''fieldResolver'']"
  by (simp_all add: ALLOWED_EXECUTE_OPTIONS_def ALLOWED_OPTIONS_def)

lemma typeof_undefined_iff: "typeof v = ''undefined'' \<longleftrightarrow> v = JUndefined"
  by (cases v) simp_all

lemma isEnumerableObject_defined: "isEnumerableObject v \<Longrightarrow> v \<noteq> JUndefined"
  by (auto simp: isEnumerableObject_def)

lemma get_prop_absent: "k \<notin> fst ` set ps \<Longrightarrow> get_prop ps k = JUndefined"
  by (simp add: get_prop_def map_of_eq_None_iff[symmetric])

text \<open>The merged options, key by key: the override's property if it has one, whatever its value.\<close>

lemma get_prop_requestOptions_of:
  "get_prop (requestOptions_of staticOptions ov) k =
     (case map_of (props_of ov) k of Some v \<Rightarrow> v | None \<Rightarrow> get_prop staticOptions k)"
  by (simp add: get_prop_def requestOptions_of_def spread_def merge_conv' map_add_def
      split: option.splits)

section \<open>Facts about the blocks of the execute middleware\<close>

lemma execute_document_Inr:
  "execute_document env x = (Inr doc, xd) \<longleftrightarrow>
     isEnumerableObject (request_body x) \<and> has_key ''query'' (request_body x) \<and>
     parse env (get (request_body x) ''query'') = Inr doc \<and>
     xd = trace_call (CallParse (get (request_body x) ''query'')) x"
  by (auto simp: execute_document_def Let_def typeof_undefined_iff isEnumerableObject_defined
      split: sum.splits)

lemma index_document_eq: "index_document env x = execute_document env x"
  unfolding index_document_def execute_document_def isPlainObject_def isEnumerableObject_def
    createHttpError_def by (rule refl)

lemma execute_middleware_fails_in_document:
  "execute_document env x = (Inl t, xd) \<Longrightarrow>
     execute_middleware env override staticOptions next x = (Some t, xd)"
  by (simp add: execute_middleware_def execute_prepare_def)

lemma execute_middleware_fails_in_override:
  "execute_document env x = (Inr doc, xd) \<Longrightarrow>
   overrideOptions_of env override xd = (Inl t, xo) \<Longrightarrow>
     execute_middleware env override staticOptions next x = (Some t, xo)"
  by (simp add: execute_middleware_def execute_prepare_def)

lemma execute_middleware_fails_in_validate:
  "execute_document env x = (Inr doc, xd) \<Longrightarrow>
   overrideOptions_of env override xd = (Inr ov, xo) \<Longrightarrow>
   execute_validate env staticOptions ov doc xo = (Inl t, xv) \<Longrightarrow>
     execute_middleware env override staticOptions next x = (Some t, xv)"
  by (simp add: execute_middleware_def execute_prepare_def)

lemma execute_middleware_runs:
  "execute_prepare env override staticOptions x = (Inr args, xv) \<Longrightarrow>
     execute_middleware env override staticOptions next x = execute_run env args next xv"
  by (simp add: execute_middleware_def)

lemma index_middleware_fails_in_override:
  "index_document env x = (Inr doc, xd) \<Longrightarrow>
   index_optionsOverride env options xd = (Inl t, xo) \<Longrightarrow>
     index_execute_middleware env options next x = (Some t, xo)"
  by (simp add: index_execute_middleware_def index_prepare_def)

lemma execute_prepare_Inr:
  assumes "execute_prepare env override staticOptions x = (Inr args, xv)"
  obtains doc xd ov xo where "execute_document env x = (Inr doc, xd)"
    and "overrideOptions_of env override xd = (Inr ov, xo)"
    and "execute_validate env staticOptions ov doc xo = (Inr args, xv)"
  using assms
  by (auto simp: execute_prepare_def split: prod.splits sum.splits)

lemma execute_validate_Inr:
  "execute_validate env staticOptions ov doc x = (Inr args, x') \<Longrightarrow>
     args = \<lparr>schema = get_prop (requestOptions_of staticOptions ov) ''schema'',
             rootValue = get_prop (requestOptions_of staticOptions ov) ''rootValue'',
             contextValue = get_prop (requestOptions_of staticOptions ov) ''contextValue'',
             fieldResolver = get_prop (requestOptions_of staticOptions ov) ''fieldResolver'',
             document = doc,
             variableValues = get (request_body x) ''variables'',
             operationName = get (request_body x) ''operationName''\<rparr>"
  by (auto simp: execute_validate_def Let_def split: if_splits sum.splits)

text \<open>The override block with an override function, case by case.\<close>

lemma overrideOptions_of_JFun:
  "overrideOptions_of env (JFun f) x =
     (case apply_fn env f x of
        Inl t \<Rightarrow> (Inl t, trace_call (CallOverride f) x)
      | Inr v \<Rightarrow>
          (case checkOptions_helper v
                  (filter (\<lambda>option. option \<noteq> ''override'') ALLOWED_EXECUTE_OPTIONS)
                  ''GraphQL execute middleware `override` option resolved'' of
             Some e \<Rightarrow> (Inl (HttpError e), trace_call (CallOverride f) x)
           | None \<Rightarrow>
               if get v ''schema'' \<noteq> JUndefined
               then ((case checkSchema env (get v ''schema'') of
                        Some e \<Rightarrow> Inl (HttpError e) | None \<Rightarrow> Inr v),
                     trace_call (CallCheckSchema (get v ''schema'')) (trace_call (CallOverride f) x))
               else (Inr v, trace_call (CallOverride f) x)))"
  by (simp add: overrideOptions_of_def Let_def typeof_undefined_iff
      split: sum.splits option.splits)

lemma index_optionsOverride_JFun:
  "get options ''override'' = JFun f \<Longrightarrow>
   index_optionsOverride env options x =
     (case apply_fn env f x of
        Inl t \<Rightarrow> (Inl t, trace_call (CallOverride f) x)
      | Inr v \<Rightarrow>
          if \<not> isPlainObject v
          then (Inl (HttpError (createError 500
                  ''GraphQL execute middleware options must be an object, or an object promise.''
                  None)), trace_call (CallOverride f) x)
          else
          (case checkOptions v
                  (filter (\<lambda>option. option \<noteq> ''override'') ALLOWED_OPTIONS)
                  ''GraphQL execute middleware `override` option return'' of
             Some e \<Rightarrow> (Inl (HttpError e), trace_call (CallOverride f) x)
           | None \<Rightarrow>
               if get v ''schema'' \<noteq> JUndefined
               then ((case checkSchema env (get v ''schema'') of
                        Some e \<Rightarrow> Inl (HttpError e) | None \<Rightarrow> Inr v),
                     trace_call (CallCheckSchema (get v ''schema'')) (trace_call (CallOverride f) x))
               else (Inr v, trace_call (CallOverride f) x)))"
  by (simp add: index_optionsOverride_def Let_def typeof_undefined_iff
      split: sum.splits option.splits)

text \<open>The override block touches the trace only, and adds nothing but its own two calls.\<close>

lemma overrideOptions_of_cases:
  "overrideOptions_of env override x = (r, x') \<Longrightarrow>
     x' = x \<or> (\<exists>f. x' = trace_call (CallOverride f) x) \<or>
     (\<exists>f s. x' = trace_call (CallCheckSchema s) (trace_call (CallOverride f) x))"
  by (auto simp: overrideOptions_of_def Let_def
      split: if_splits jsval.splits sum.splits option.splits)

lemma overrideOptions_of_trace:
  assumes "overrideOptions_of env override x = (r, x')"
  shows "\<exists>tr. x' = x\<lparr>calls := calls x @ tr\<rparr> \<and>
          (\<forall>c \<in> set tr. case c of CallOverride f \<Rightarrow> True | CallCheckSchema s \<Rightarrow> True
                          | _ \<Rightarrow> False)"
proof -
  from overrideOptions_of_cases[OF assms] consider
    "x' = x" | f where "x' = trace_call (CallOverride f) x"
    | f s where "x' = trace_call (CallCheckSchema s) (trace_call (CallOverride f) x)"
    by blast
  then show ?thesis
  proof cases
    case 1
    then show ?thesis by (intro exI[of _ "[]"]) simp
  next
    case 2
    then show ?thesis by (intro exI[of _ "[CallOverride f]"]) (simp add: trace_call_def)
  next
    case 3
    then show ?thesis
      by (intro exI[of _ "[CallOverride f, CallCheckSchema s]"]) (simp add: trace_call_def)
  qed
qed

lemma overrideOptions_of_request_body:
  "overrideOptions_of env override x = (r, x') \<Longrightarrow> request_body x' = request_body x"
  by (drule overrideOptions_of_cases) (auto simp: trace_call_def)

lemma overrideOptions_of_Inr_keys:
  "overrideOptions_of env override x = (Inr ov, x') \<Longrightarrow>
     set (Object_keys ov) \<subseteq> {''schema'', ''rootValue'', ''contextValue'', ''fieldResolver''}"
  by (auto simp: overrideOptions_of_def Let_def checkOptions_helper_def checkOptions_eq
      allowed_without_override Object_keys_def
      split: if_splits jsval.splits sum.splits option.splits)

section \<open>The error handler and the exposure of errors\<close>

text \<open>
  What \<open>errorHandler\<close> does hide: it tests the flag of the coerced error (index.mjs, 95),
  and when that is false the response is the generic one, whatever was thrown.
\<close>

lemma errorHandler_masks_coerced:
  assumes "next x = (Some error, x')"
    and "\<not> expose (createError_coerce error)"
  shows "errorHandler next x =
           (None, x'\<lparr>response_status := 500,
                     response_body := Some (AList.update ''errors''
                        (JArr [JObj [(''message'', JStr ''Internal Server Error''),
                                     (''locations'', JUndefined), (''path'', JUndefined)]])
                        (case response_body x' of None \<Rightarrow> [] | Some b \<Rightarrow> b)),
                     app_errors := app_errors x' @ [error]\<rparr>)"
  using assms
  by (simp add: errorHandler_def createError_generic_def createError_def formatError_def
      as_graphql_error_def Let_def)

text \<open>
  C1. The claim: for every thrown error whose \<open>expose\<close> flag is not true, the response
  has status 500 and the single message \<open>Internal Server Error\<close>, and the original
  message is not in the body; the comment at index.mjs 57-59 promises the same. The code
  does not keep it. The coercion overwrites the flag of an error that is not an instance
  of the http-errors class of its status with \<open>status < 500\<close>, and \<open>errorHandler\<close>
  tests the flag only afterwards. So a plain \<open>Error\<close> with the status 400 and no
  \<open>expose\<close>, and an error created with the status 200 and \<open>expose: false\<close>, both reach
  the client with their status and their original message.
\<close>

theorem errorHandler_exposes_by_status:
  "errorHandler
     (\<lambda>x. (Some (PlainError \<lparr>status = 400, message = ''secret detail'', expose = False,
                             graphqlErrors = None\<rparr>), x))
     (demo_ctx JNull) =
   (None, \<lparr>request_body = JNull, response_status = 400,
           response_body = Some [(''errors'', JArr [JObj [(''message'', JStr ''secret detail''),
                                    (''locations'', JUndefined), (''path'', JUndefined)]])],
           app_errors = [PlainError \<lparr>status = 400, message = ''secret detail'', expose = False,
                                     graphqlErrors = None\<rparr>],
           calls = []\<rparr>)
   \<and> errorHandler
     (\<lambda>x. (Some (HttpError \<lparr>status = 200, message = ''teapot secret'', expose = False,
                            graphqlErrors = None\<rparr>), x))
     (demo_ctx JNull) =
   (None, \<lparr>request_body = JNull, response_status = 200,
           response_body = Some [(''errors'', JArr [JObj [(''message'', JStr ''teapot secret''),
                                    (''locations'', JUndefined), (''path'', JUndefined)]])],
           app_errors = [HttpError \<lparr>status = 200, message = ''teapot secret'', expose = False,
                                    graphqlErrors = None\<rparr>],
           calls = []\<rparr>)"
  by (simp add: errorHandler_def coerced_status_def non_error_status_def formatError_def
      as_graphql_error_def demo_ctx_def Let_def)

section \<open>The setup rejects unknown option keys\<close>

text \<open>
  The claim C3 names seven allowed keys. \<open>ALLOWED_EXECUTE_OPTIONS\<close> has five: options
  with \<open>executeFn\<close> or \<open>validationRules\<close>, both in the claim's set, are rejected.
\<close>

theorem setup_allowed_keys_counterexample:
  "execute demo_engine
     (JObj [(''schema'', demo_schema), (''executeFn'', JFun 5), (''validationRules'', JArr [])]) =
   Inl \<lparr>status = 500,
        message = ''GraphQL execute middleware options invalid: `executeFn`, `validationRules`.'',
        expose = False, graphqlErrors = None\<rparr>
   \<and> set [''schema'', ''executeFn'', ''validationRules'']
       \<subseteq> set [''schema'', ''rootValue'', ''contextValue'', ''fieldResolver'', ''executeFn'',
               ''validationRules'', ''override'']"
  by (simp add: execute_def checkOptions_helper_def checkOptions_def isEnumerableObject_def
      Object_keys_def ALLOWED_EXECUTE_OPTIONS_def createError_def Let_def)

text \<open>
  C3, amended. The allowed set is \<open>schema\<close>, \<open>rootValue\<close>, \<open>contextValue\<close>,
  \<open>fieldResolver\<close>, \<open>override\<close>. For options that are an object, the setup of \<open>execute\<close>
  throws the invalid-options error if and only if the options have a key outside this
  set: with such a key it throws the error of status 500, not exposed, whose message
  lists the invalid keys, all of them and no other, in the order of \<open>Object.keys\<close>;
  without one it throws no invalid-options error (it may still throw on the schema or on
  an \<open>override\<close> that is not a function).
\<close>

theorem setup_rejects_unknown_keys:
  assumes "isEnumerableObject options"
  shows "let invalid = filter (\<lambda>k. k \<notin> {''schema'', ''rootValue'', ''contextValue'',
                                        ''fieldResolver'', ''override''}) (Object_keys options)
         in (invalid \<noteq> [] \<longrightarrow>
               execute env options =
                 Inl \<lparr>status = 500,
                      message = ''GraphQL execute middleware options invalid: `'' @
                                join ''`, `'' invalid @ ''`.'',
                      expose = False, graphqlErrors = None\<rparr>)
          \<and> (invalid = [] \<longrightarrow>
               (\<forall>ks. execute env options \<noteq>
                 Inl \<lparr>status = 500,
                      message = ''GraphQL execute middleware options invalid: `'' @
                                join ''`, `'' ks @ ''`.'',
                      expose = False, graphqlErrors = None\<rparr>))"
proof -
  define invalid where
    "invalid = filter (\<lambda>k. k \<notin> set ALLOWED_EXECUTE_OPTIONS) (Object_keys options)"
  have allowed: "set ALLOWED_EXECUTE_OPTIONS =
      {''schema'', ''rootValue'', ''contextValue'', ''fieldResolver'', ''override''}"
    by (simp add: ALLOWED_EXECUTE_OPTIONS_def)
  from assms have nu: "typeof options \<noteq> ''undefined''"
    by (auto simp: isEnumerableObject_def)
  have a: "execute env options =
             Inl (createError 500 (''GraphQL execute middleware options invalid: `'' @
                    join ''`, `'' invalid @ ''`.'') None)" if "invalid \<noteq> []"
    using that assms nu unfolding invalid_def
    by (simp add: execute_def checkOptions_helper_def checkOptions_def Let_def)
  have b: "execute env options \<noteq>
             Inl \<lparr>status = 500,
                  message = ''GraphQL execute middleware options invalid: `'' @
                            join ''`, `'' ks @ ''`.'',
                  expose = False, graphqlErrors = None\<rparr>" if "invalid = []" for ks
  proof -
    from that
    have "checkOptions options ALLOWED_EXECUTE_OPTIONS ''GraphQL execute middleware'' = None"
      unfolding invalid_def by (simp add: checkOptions_def Let_def)
    then show ?thesis using assms nu
      by (auto simp: execute_def checkOptions_helper_def createHttpError_def createError_def
          split: option.splits if_splits dest!: checkSchema_message)
  qed
  show ?thesis
    using a b unfolding invalid_def[symmetric] allowed[symmetric] Let_def createError_def
    by simp
qed

theorem setup_rejects_unknown_keys_witness:
  "isEnumerableObject (JObj [(''schema'', demo_schema), (''typo'', JNull), (''rootValue'', JNum 1),
                             (''validationRules'', JArr [])])
   \<and> execute demo_engine (JObj [(''schema'', demo_schema), (''typo'', JNull),
                                 (''rootValue'', JNum 1), (''validationRules'', JArr [])]) =
       Inl \<lparr>status = 500,
            message = ''GraphQL execute middleware options invalid: `typo`, `validationRules`.'',
            expose = False, graphqlErrors = None\<rparr>
   \<and> isEnumerableObject (JObj [(''schema'', demo_schema), (''override'', JFun 0)])
   \<and> execute demo_engine (JObj [(''schema'', demo_schema), (''override'', JFun 0)]) \<noteq>
       Inl \<lparr>status = 500,
            message = ''GraphQL execute middleware options invalid: `override`.'',
            expose = False, graphqlErrors = None\<rparr>"
  using setup_rejects_unknown_keys
      [of "JObj [(''schema'', demo_schema), (''typo'', JNull), (''rootValue'', JNum 1),
                 (''validationRules'', JArr [])]" demo_engine]
    setup_rejects_unknown_keys
      [of "JObj [(''schema'', demo_schema), (''override'', JFun 0)]" demo_engine,
       unfolded Let_def, THEN conjunct2, rule_format, of "[''override'']"]
  by (simp add: isEnumerableObject_def Object_keys_def Let_def)

section \<open>Syntax errors come first\<close>

text \<open>
  C5. A request whose body is an object with a \<open>query\<close> that the parser rejects with the
  message \<open>m\<close> fails with the error of status 400, exposed, whose message is
  \<open>GraphQL query syntax error: \<close> followed by \<open>m\<close>. The request adds the call of the
  parser to the trace and nothing else: the override function is not invoked, whatever
  the override and the static options are.
\<close>

theorem syntax_error_before_override:
  assumes "isEnumerableObject (request_body x)"
    and "has_key ''query'' (request_body x)"
    and "parse env (get (request_body x) ''query'') = Inl m"
  shows "execute_middleware env override staticOptions next x =
           (Some (HttpError \<lparr>status = 400, message = ''GraphQL query syntax error: '' @ m,
                             expose = True, graphqlErrors = None\<rparr>),
            x\<lparr>calls := calls x @ [CallParse (get (request_body x) ''query'')]\<rparr>)"
proof -
  have "execute_document env x =
          (Inl (HttpError (createHttpError 400 (''GraphQL query syntax error: '' @ m) None)),
           trace_call (CallParse (get (request_body x) ''query'')) x)"
    using assms
    by (simp add: execute_document_def Let_def typeof_undefined_iff isEnumerableObject_defined)
  then show ?thesis
    by (simp add: execute_middleware_fails_in_document createHttpError_def createError_def
        trace_call_def)
qed

theorem syntax_error_before_override_witness:
  "execute_middleware demo_engine (JFun 0) [(''schema'', demo_schema)] noop
     (demo_ctx (JObj [(''query'', JStr ''{ hello'')])) =
   (Some (HttpError \<lparr>status = 400,
            message = ''GraphQL query syntax error: Syntax Error: Unexpected Name.'',
            expose = True, graphqlErrors = None\<rparr>),
    \<lparr>request_body = JObj [(''query'', JStr ''{ hello'')], response_status = 404,
     response_body = None, app_errors = [], calls = [CallParse (JStr ''{ hello'')]\<rparr>)"
  using syntax_error_before_override
    [where x = "demo_ctx (JObj [(''query'', JStr ''{ hello'')])" and env = demo_engine
       and m = "''Syntax Error: Unexpected Name.''" and override = "JFun 0"
       and staticOptions = "[(''schema'', demo_schema)]" and ?next = noop]
  by (simp add: demo_ctx_def demo_engine_def isEnumerableObject_def has_key_def Object_keys_def
      get_def get_prop_def)

section \<open>Validation errors are reported together\<close>

text \<open>
  C4. A request that has a parsed document and resolved override options, whose merged
  options define a schema \<open>s\<close>, and whose document has the validation errors \<open>errs\<close>
  against \<open>s\<close>, one or more, fails with the error of status 400, exposed, that carries
  the whole list \<open>errs\<close> as \<open>graphqlErrors\<close>. Behind \<open>errorHandler\<close> the response has
  status 400 and the body's \<open>errors\<close> is the list of the formatted errors, one for each
  validation error, in the same order.
\<close>

theorem validation_errors_all_reported:
  assumes "execute_document env x = (Inr doc, xd)"
    and "overrideOptions_of env override xd = (Inr ov, xo)"
    and "get_prop (requestOptions_of staticOptions ov) ''schema'' = s"
    and "s \<noteq> JUndefined"
    and "validate env s doc = Inr errs"
    and "errs \<noteq> []"
  shows "execute_middleware env override staticOptions next x =
           (Some (HttpError \<lparr>status = 400, message = ''GraphQL query validation errors.'',
                             expose = True, graphqlErrors = Some errs\<rparr>),
            trace_call (CallValidate s doc) xo)
       \<and> fst (errorHandler (execute_middleware env override staticOptions next) x) = None
       \<and> response_status
           (snd (errorHandler (execute_middleware env override staticOptions next) x)) = 400
       \<and> get_prop (the (response_body
             (snd (errorHandler (execute_middleware env override staticOptions next) x))))
           ''errors'' = JArr (map formatError errs)
       \<and> length (map formatError errs) = length errs"
proof -
  have "execute_validate env staticOptions ov doc xo =
          (Inl (HttpError (createHttpError 400 ''GraphQL query validation errors.'' (Some errs))),
           trace_call (CallValidate s doc) xo)"
    using assms(3-6) by (auto simp: execute_validate_def Let_def typeof_undefined_iff)
  with assms(1,2) have a: "execute_middleware env override staticOptions next x =
      (Some (HttpError (createHttpError 400 ''GraphQL query validation errors.'' (Some errs))),
       trace_call (CallValidate s doc) xo)"
    by (rule execute_middleware_fails_in_validate)
  then show ?thesis
    by (simp add: errorHandler_def createHttpError_def createError_def Let_def get_prop_def
        update_conv')
qed

theorem validation_errors_all_reported_witness:
  "response_status (snd (errorHandler
      (execute_middleware demo_engine JUndefined [(''schema'', demo_schema)] noop)
      (demo_ctx (JObj [(''query'', JStr ''{ missingField missingField }'')])))) = 400
   \<and> get_prop (the (response_body (snd (errorHandler
      (execute_middleware demo_engine JUndefined [(''schema'', demo_schema)] noop)
      (demo_ctx (JObj [(''query'', JStr ''{ missingField missingField }'')])))))) ''errors'' =
     JArr [JObj [(''message'', JStr ''Cannot query field missingField (1).''),
                 (''locations'', JUndefined), (''path'', JUndefined)],
           JObj [(''message'', JStr ''Cannot query field missingField (2).''),
                 (''locations'', JUndefined), (''path'', JUndefined)]]"
  using validation_errors_all_reported
    [where x = "demo_ctx (JObj [(''query'', JStr ''{ missingField missingField }'')])"
       and env = demo_engine and doc = "JStr ''{ missingField missingField }''"
       and xd = "trace_call (CallParse (JStr ''{ missingField missingField }''))
                   (demo_ctx (JObj [(''query'', JStr ''{ missingField missingField }'')]))"
       and override = JUndefined and ov = JUndefined
       and xo = "trace_call (CallParse (JStr ''{ missingField missingField }''))
                   (demo_ctx (JObj [(''query'', JStr ''{ missingField missingField }'')]))"
       and staticOptions = "[(''schema'', demo_schema)]" and s = demo_schema
       and errs = "[demo_error ''Cannot query field missingField (1).'',
                    demo_error ''Cannot query field missingField (2).'']"
       and ?next = noop]
  by (simp add: execute_document_Inr overrideOptions_of_def demo_ctx_def demo_engine_def
      demo_schema_def demo_error_def isEnumerableObject_def has_key_def Object_keys_def get_def
      get_prop_def requestOptions_of_def spread_def formatError_def)

section \<open>No schema after merging\<close>

text \<open>
  C7. A request that has a parsed document and resolved override options \<open>ov\<close>, and whose
  options, the static ones merged with \<open>ov\<close>, define no schema, fails with the error
  \<open>GraphQL schema is required.\<close>, of status 500 and not exposed. It fails in the context
  the override block left: since the start of the request the trace has the call of the
  parser and then calls of the override and of the schema check only, no query validation
  and no execution.
\<close>

theorem schema_required_after_merge:
  assumes "execute_document env x = (Inr doc, xd)"
    and "overrideOptions_of env override xd = (Inr ov, xo)"
    and "get_prop (requestOptions_of staticOptions ov) ''schema'' = JUndefined"
  shows "execute_middleware env override staticOptions next x =
           (Some (HttpError \<lparr>status = 500, message = ''GraphQL schema is required.'',
                             expose = False, graphqlErrors = None\<rparr>), xo)
       \<and> (\<exists>tr. calls xo = calls x @ CallParse (get (request_body x) ''query'') # tr \<and>
               (\<forall>c \<in> set tr. case c of CallOverride f \<Rightarrow> True | CallCheckSchema s \<Rightarrow> True
                               | _ \<Rightarrow> False))"
proof -
  have "execute_validate env staticOptions ov doc xo =
          (Inl (HttpError (createHttpError 500 ''GraphQL schema is required.'' None)), xo)"
    using assms(3) by (simp add: execute_validate_def Let_def)
  with assms(1,2) have a: "execute_middleware env override staticOptions next x =
      (Some (HttpError (createHttpError 500 ''GraphQL schema is required.'' None)), xo)"
    by (rule execute_middleware_fails_in_validate)
  from assms(1) have xd: "xd = trace_call (CallParse (get (request_body x) ''query'')) x"
    by (simp add: execute_document_Inr)
  from overrideOptions_of_trace[OF assms(2)] obtain tr where
    tr: "xo = xd\<lparr>calls := calls xd @ tr\<rparr>"
      "\<forall>c \<in> set tr. case c of CallOverride f \<Rightarrow> True | CallCheckSchema s \<Rightarrow> True | _ \<Rightarrow> False"
    by blast
  with xd have "calls xo = calls x @ CallParse (get (request_body x) ''query'') # tr"
    by (simp add: trace_call_def)
  with a tr(2) show ?thesis
    by (auto simp: createHttpError_def createError_def)
qed

theorem schema_required_after_merge_witness:
  "execute_middleware demo_engine (JFun 0) [(''rootValue'', JNum 1)] noop
     (demo_ctx (JObj [(''query'', JStr ''{ hello }'')])) =
   (Some (HttpError \<lparr>status = 500, message = ''GraphQL schema is required.'',
                     expose = False, graphqlErrors = None\<rparr>),
    \<lparr>request_body = JObj [(''query'', JStr ''{ hello }'')], response_status = 404,
     response_body = None, app_errors = [],
     calls = [CallParse (JStr ''{ hello }''), CallOverride 0]\<rparr>)"
  using schema_required_after_merge
    [where x = "demo_ctx (JObj [(''query'', JStr ''{ hello }'')])"
       and env = demo_engine and doc = "JStr ''{ hello }''"
       and xd = "trace_call (CallParse (JStr ''{ hello }''))
                   (demo_ctx (JObj [(''query'', JStr ''{ hello }'')]))"
       and override = "JFun 0" and ov = "JObj [(''contextValue'', JStr ''user'')]"
       and xo = "trace_call (CallOverride 0) (trace_call (CallParse (JStr ''{ hello }''))
                   (demo_ctx (JObj [(''query'', JStr ''{ hello }'')])))"
       and staticOptions = "[(''rootValue'', JNum 1)]" and ?next = noop]
  by (simp add: execute_document_Inr overrideOptions_of_JFun checkOptions_helper_def
      checkOptions_eq allowed_without_override demo_ctx_def demo_engine_def
      isEnumerableObject_def has_key_def Object_keys_def get_def get_prop_def
      requestOptions_of_def spread_def trace_call_def)

section \<open>An undefined property of the override wins\<close>

text \<open>
  C10. When the object an override resolves to has a property whose value is
  \<open>undefined\<close>, the merged options have \<open>undefined\<close> at that key, whatever the static
  options hold there. So an override that resolves to an object with \<open>schema: undefined\<close>
  (and allowed keys only) makes the request fail with \<open>GraphQL schema is required.\<close>, of
  status 500 and not exposed, for any static options, a valid static schema included.
\<close>

theorem override_undefined_discards_static:
  assumes "execute_document env x = (Inr doc, xd)"
    and "apply_fn env f xd = Inr ov"
    and "isEnumerableObject ov"
    and "set (Object_keys ov) \<subseteq> {''schema'', ''rootValue'', ''contextValue'', ''fieldResolver''}"
    and "map_of (props_of ov) k = Some JUndefined"
  shows "get_prop (requestOptions_of staticOptions ov) k = JUndefined
       \<and> (k = ''schema'' \<longrightarrow>
            execute_middleware env (JFun f) staticOptions next x =
              (Some (HttpError \<lparr>status = 500, message = ''GraphQL schema is required.'',
                                expose = False, graphqlErrors = None\<rparr>),
               trace_call (CallOverride f) xd))"
proof -
  have merged: "get_prop (requestOptions_of staticOptions ov) k = JUndefined"
    using assms(5) by (simp add: get_prop_requestOptions_of)
  have "execute_middleware env (JFun f) staticOptions next x =
          (Some (HttpError \<lparr>status = 500, message = ''GraphQL schema is required.'',
                            expose = False, graphqlErrors = None\<rparr>),
           trace_call (CallOverride f) xd)" if k: "k = ''schema''"
  proof -
    from assms(5) k have "get ov ''schema'' = JUndefined"
      by (simp add: get_def get_prop_def)
    with assms(2-4)
    have ov: "overrideOptions_of env (JFun f) xd = (Inr ov, trace_call (CallOverride f) xd)"
      by (simp add: overrideOptions_of_JFun checkOptions_helper_def checkOptions_eq
          allowed_without_override)
    from merged k
    have "execute_validate env staticOptions ov doc (trace_call (CallOverride f) xd) =
        (Inl (HttpError (createHttpError 500 ''GraphQL schema is required.'' None)),
         trace_call (CallOverride f) xd)"
      by (simp add: execute_validate_def Let_def)
    from execute_middleware_fails_in_validate[OF assms(1) ov this]
    show ?thesis by (simp add: createHttpError_def createError_def)
  qed
  with merged show ?thesis by blast
qed

theorem override_undefined_discards_static_witness:
  "get_prop [(''schema'', demo_schema)] ''schema'' = demo_schema
   \<and> get_prop (requestOptions_of [(''schema'', demo_schema)] (JObj [(''schema'', JUndefined)]))
       ''schema'' = JUndefined
   \<and> execute_middleware demo_engine (JFun 1) [(''schema'', demo_schema)] noop
       (demo_ctx (JObj [(''query'', JStr ''{ hello }'')])) =
     (Some (HttpError \<lparr>status = 500, message = ''GraphQL schema is required.'',
                       expose = False, graphqlErrors = None\<rparr>),
      \<lparr>request_body = JObj [(''query'', JStr ''{ hello }'')], response_status = 404,
       response_body = None, app_errors = [],
       calls = [CallParse (JStr ''{ hello }''), CallOverride 1]\<rparr>)"
  using override_undefined_discards_static
    [where x = "demo_ctx (JObj [(''query'', JStr ''{ hello }'')])"
       and env = demo_engine and doc = "JStr ''{ hello }''"
       and xd = "trace_call (CallParse (JStr ''{ hello }''))
                   (demo_ctx (JObj [(''query'', JStr ''{ hello }'')]))"
       and f = 1 and ov = "JObj [(''schema'', JUndefined)]" and k = "''schema''"
       and staticOptions = "[(''schema'', demo_schema)]" and ?next = noop]
  by (simp add: execute_document_Inr demo_ctx_def demo_engine_def isEnumerableObject_def
      has_key_def Object_keys_def get_def get_prop_def trace_call_def)

section \<open>What an override resolves to is checked\<close>

text \<open>
  C6. Take a request with a parsed document whose override function \<open>f\<close> resolves to
  \<open>v\<close>. In \<open>execute\<close> of execute.mjs:
  \<^item> if \<open>v\<close> is not an enumerable object, the request fails with an error of status 500,
    not exposed;
  \<^item> if \<open>v\<close> is an object with a key other than \<open>schema\<close>, \<open>rootValue\<close>,
    \<open>contextValue\<close>, \<open>fieldResolver\<close> (the allow-list without \<open>override\<close>), the request
    fails with the invalid-options error, of status 500 and not exposed, naming these keys;
    the key \<open>override\<close> is such a key;
  \<^item> if \<open>v\<close> is an object with allowed keys and a schema, \<open>checkSchema\<close> runs on that
    schema right after the override, inside the override block, hence before the merge,
    the query validation and the execution, and when it throws the request fails with its
    error, of status 500 and not exposed.
  The same three hold in \<open>execute\<close> of index.mjs, where the object check is written in
  the middleware itself (187-190).
\<close>

theorem override_result_is_checked:
  assumes "execute_document env x = (Inr doc, xd)"
    and "apply_fn env f xd = Inr v"
  shows "(\<not> isEnumerableObject v \<longrightarrow>
            (\<exists>e. execute_middleware env (JFun f) staticOptions next x =
                    (Some (HttpError e), trace_call (CallOverride f) xd) \<and>
                  status e = 500 \<and> \<not> expose e))
       \<and> (isEnumerableObject v \<and>
          \<not> set (Object_keys v) \<subseteq> {''schema'', ''rootValue'', ''contextValue'', ''fieldResolver''} \<longrightarrow>
            execute_middleware env (JFun f) staticOptions next x =
              (Some (HttpError \<lparr>status = 500,
                 message = ''GraphQL execute middleware `override` option resolved options invalid: `'' @
                   join ''`, `'' (filter (\<lambda>k. k \<notin> {''schema'', ''rootValue'', ''contextValue'',
                                               ''fieldResolver''}) (Object_keys v)) @ ''`.'',
                 expose = False, graphqlErrors = None\<rparr>),
               trace_call (CallOverride f) xd))
       \<and> (has_key ''override'' v \<longrightarrow>
            \<not> set (Object_keys v) \<subseteq> {''schema'', ''rootValue'', ''contextValue'', ''fieldResolver''})
       \<and> (isEnumerableObject v \<and>
          set (Object_keys v) \<subseteq> {''schema'', ''rootValue'', ''contextValue'', ''fieldResolver''} \<and>
          get v ''schema'' \<noteq> JUndefined \<longrightarrow>
            overrideOptions_of env (JFun f) xd =
              ((case checkSchema env (get v ''schema'') of
                  Some e \<Rightarrow> Inl (HttpError e) | None \<Rightarrow> Inr v),
               trace_call (CallCheckSchema (get v ''schema'')) (trace_call (CallOverride f) xd)) \<and>
            (\<forall>e. checkSchema env (get v ''schema'') = Some e \<longrightarrow>
               execute_middleware env (JFun f) staticOptions next x =
                 (Some (HttpError e),
                  trace_call (CallCheckSchema (get v ''schema'')) (trace_call (CallOverride f) xd)) \<and>
               status e = 500 \<and> \<not> expose e))
       \<and> (get options ''override'' = JFun f \<longrightarrow>
           (\<not> isPlainObject v \<longrightarrow>
              index_execute_middleware env options next x =
                (Some (HttpError \<lparr>status = 500,
                   message = ''GraphQL execute middleware options must be an object, or an object promise.'',
                   expose = False, graphqlErrors = None\<rparr>),
                 trace_call (CallOverride f) xd))
         \<and> (isPlainObject v \<and>
            \<not> set (Object_keys v) \<subseteq> {''schema'', ''rootValue'', ''contextValue'', ''fieldResolver''} \<longrightarrow>
              index_execute_middleware env options next x =
                (Some (HttpError \<lparr>status = 500,
                   message = ''GraphQL execute middleware `override` option return options invalid: `'' @
                     join ''`, `'' (filter (\<lambda>k. k \<notin> {''schema'', ''rootValue'', ''contextValue'',
                                                 ''fieldResolver''}) (Object_keys v)) @ ''`.'',
                   expose = False, graphqlErrors = None\<rparr>),
                 trace_call (CallOverride f) xd))
         \<and> (isPlainObject v \<and>
            set (Object_keys v) \<subseteq> {''schema'', ''rootValue'', ''contextValue'', ''fieldResolver''} \<and>
            get v ''schema'' \<noteq> JUndefined \<longrightarrow>
              index_optionsOverride env options xd =
                ((case checkSchema env (get v ''schema'') of
                    Some e \<Rightarrow> Inl (HttpError e) | None \<Rightarrow> Inr v),
                 trace_call (CallCheckSchema (get v ''schema'')) (trace_call (CallOverride f) xd)) \<and>
              (\<forall>e. checkSchema env (get v ''schema'') = Some e \<longrightarrow>
                 index_execute_middleware env options next x =
                   (Some (HttpError e),
                    trace_call (CallCheckSchema (get v ''schema''))
                      (trace_call (CallOverride f) xd)))))"
proof -
  let ?four = "{''schema'', ''rootValue'', ''contextValue'', ''fieldResolver''}"
  note fails = execute_middleware_fails_in_override[OF assms(1)]
  have p1: "\<exists>e. execute_middleware env (JFun f) staticOptions next x =
                    (Some (HttpError e), trace_call (CallOverride f) xd) \<and>
                  status e = 500 \<and> \<not> expose e" if "\<not> isEnumerableObject v"
  proof -
    from that assms(2) have "overrideOptions_of env (JFun f) xd =
        (Inl (HttpError (createHttpError 500
           (''GraphQL execute middleware `override` option resolved'' @
            '' options must be an enumerable object.'') None)), trace_call (CallOverride f) xd)"
      by (simp add: overrideOptions_of_JFun checkOptions_helper_def)
    from fails[OF this] show ?thesis
      by (simp add: createHttpError_def createError_def)
  qed
  have p2: "execute_middleware env (JFun f) staticOptions next x =
              (Some (HttpError \<lparr>status = 500,
                 message = ''GraphQL execute middleware `override` option resolved options invalid: `'' @
                   join ''`, `'' (filter (\<lambda>k. k \<notin> ?four) (Object_keys v)) @ ''`.'',
                 expose = False, graphqlErrors = None\<rparr>),
               trace_call (CallOverride f) xd)"
    if "isEnumerableObject v" "\<not> set (Object_keys v) \<subseteq> ?four"
  proof -
    from that assms(2) have "overrideOptions_of env (JFun f) xd =
        (Inl (HttpError \<lparr>status = 500,
                 message = ''GraphQL execute middleware `override` option resolved options invalid: `'' @
                   join ''`, `'' (filter (\<lambda>k. k \<notin> ?four) (Object_keys v)) @ ''`.'',
                 expose = False, graphqlErrors = None\<rparr>), trace_call (CallOverride f) xd)"
      by (simp add: overrideOptions_of_JFun checkOptions_helper_def checkOptions_eq
          allowed_without_override)
    from fails[OF this] show ?thesis .
  qed
  have p3: "\<not> set (Object_keys v) \<subseteq> ?four" if "has_key ''override'' v"
    using that by (auto simp: has_key_def)
  have p4a: "overrideOptions_of env (JFun f) xd =
              ((case checkSchema env (get v ''schema'') of
                  Some e \<Rightarrow> Inl (HttpError e) | None \<Rightarrow> Inr v),
               trace_call (CallCheckSchema (get v ''schema'')) (trace_call (CallOverride f) xd))"
    if "isEnumerableObject v" "set (Object_keys v) \<subseteq> ?four" "get v ''schema'' \<noteq> JUndefined"
    using that assms(2)
    by (simp add: overrideOptions_of_JFun checkOptions_helper_def checkOptions_eq
        allowed_without_override)
  have p4b: "execute_middleware env (JFun f) staticOptions next x =
                 (Some (HttpError e),
                  trace_call (CallCheckSchema (get v ''schema'')) (trace_call (CallOverride f) xd))"
    if "isEnumerableObject v" "set (Object_keys v) \<subseteq> ?four" "get v ''schema'' \<noteq> JUndefined"
      "checkSchema env (get v ''schema'') = Some e" for e
    using fails[of "JFun f" "HttpError e"
        "trace_call (CallCheckSchema (get v ''schema'')) (trace_call (CallOverride f) xd)"]
      p4a[OF that(1-3)] that(4)
    by simp
  have p4s: "status e = 500" and p4x: "\<not> expose e"
    if "checkSchema env (get v ''schema'') = Some e" for e
    using checkSchema_Some_unexposed[OF that] by simp_all
  from assms(1) have idoc: "index_document env x = (Inr doc, xd)"
    by (simp add: index_document_eq)
  note ifails = index_middleware_fails_in_override[OF idoc]
  have q1: "index_execute_middleware env options next x =
                (Some (HttpError \<lparr>status = 500,
                   message = ''GraphQL execute middleware options must be an object, or an object promise.'',
                   expose = False, graphqlErrors = None\<rparr>),
                 trace_call (CallOverride f) xd)"
    if "get options ''override'' = JFun f" "\<not> isPlainObject v"
  proof -
    from that assms(2) have "index_optionsOverride env options xd =
        (Inl (HttpError \<lparr>status = 500,
                   message = ''GraphQL execute middleware options must be an object, or an object promise.'',
                   expose = False, graphqlErrors = None\<rparr>), trace_call (CallOverride f) xd)"
      by (simp add: index_optionsOverride_JFun createError_def)
    from ifails[OF this] show ?thesis .
  qed
  have q2: "index_execute_middleware env options next x =
                (Some (HttpError \<lparr>status = 500,
                   message = ''GraphQL execute middleware `override` option return options invalid: `'' @
                     join ''`, `'' (filter (\<lambda>k. k \<notin> ?four) (Object_keys v)) @ ''`.'',
                   expose = False, graphqlErrors = None\<rparr>),
                 trace_call (CallOverride f) xd)"
    if "get options ''override'' = JFun f" "isPlainObject v" "\<not> set (Object_keys v) \<subseteq> ?four"
  proof -
    from that assms(2) have "index_optionsOverride env options xd =
        (Inl (HttpError \<lparr>status = 500,
                   message = ''GraphQL execute middleware `override` option return options invalid: `'' @
                     join ''`, `'' (filter (\<lambda>k. k \<notin> ?four) (Object_keys v)) @ ''`.'',
                   expose = False, graphqlErrors = None\<rparr>), trace_call (CallOverride f) xd)"
      by (simp add: index_optionsOverride_JFun checkOptions_eq allowed_without_override)
    from ifails[OF this] show ?thesis .
  qed
  have q3a: "index_optionsOverride env options xd =
                ((case checkSchema env (get v ''schema'') of
                    Some e \<Rightarrow> Inl (HttpError e) | None \<Rightarrow> Inr v),
                 trace_call (CallCheckSchema (get v ''schema'')) (trace_call (CallOverride f) xd))"
    if "get options ''override'' = JFun f" "isPlainObject v" "set (Object_keys v) \<subseteq> ?four"
      "get v ''schema'' \<noteq> JUndefined"
    using that assms(2)
    by (simp add: index_optionsOverride_JFun checkOptions_eq allowed_without_override)
  have q3b: "index_execute_middleware env options next x =
                   (Some (HttpError e),
                    trace_call (CallCheckSchema (get v ''schema'')) (trace_call (CallOverride f) xd))"
    if "get options ''override'' = JFun f" "isPlainObject v" "set (Object_keys v) \<subseteq> ?four"
      "get v ''schema'' \<noteq> JUndefined" "checkSchema env (get v ''schema'') = Some e" for e
    using ifails[of options "HttpError e"
        "trace_call (CallCheckSchema (get v ''schema'')) (trace_call (CallOverride f) xd)"]
      q3a[OF that(1-4)] that(5)
    by simp
  show ?thesis
    by (intro conjI impI allI; (elim conjE)?;
        (rule p1 p2 p3 p4a p4b p4s p4x q1 q2 q3a q3b; assumption))
qed

theorem override_result_is_checked_witness:
  "index_execute_middleware demo_engine (JObj [(''schema'', demo_schema), (''override'', JFun 2)])
     noop (demo_ctx (JObj [(''query'', JStr ''{ hello }'')])) =
     (Some (HttpError \<lparr>status = 500,
        message = ''GraphQL execute middleware options must be an object, or an object promise.'',
        expose = False, graphqlErrors = None\<rparr>),
      \<lparr>request_body = JObj [(''query'', JStr ''{ hello }'')], response_status = 404,
       response_body = None, app_errors = [],
       calls = [CallParse (JStr ''{ hello }''), CallOverride 2]\<rparr>)
   \<and> (case fst (execute_middleware demo_engine (JFun 2) [(''schema'', demo_schema)] noop
                  (demo_ctx (JObj [(''query'', JStr ''{ hello }'')]))) of
        Some (HttpError e) \<Rightarrow> status e = 500 \<and> \<not> expose e
      | _ \<Rightarrow> False)
   \<and> execute_middleware demo_engine (JFun 3) [(''schema'', demo_schema)] noop
       (demo_ctx (JObj [(''query'', JStr ''{ hello }'')])) =
     (Some (HttpError \<lparr>status = 500,
        message = ''GraphQL execute middleware `override` option resolved options invalid: `override`.'',
        expose = False, graphqlErrors = None\<rparr>),
      \<lparr>request_body = JObj [(''query'', JStr ''{ hello }'')], response_status = 404,
       response_body = None, app_errors = [],
       calls = [CallParse (JStr ''{ hello }''), CallOverride 3]\<rparr>)
   \<and> execute_middleware demo_engine (JFun 4) [(''schema'', demo_schema)] noop
       (demo_ctx (JObj [(''query'', JStr ''{ hello }'')])) =
     (Some (HttpError \<lparr>status = 500,
        message = ''GraphQL schema is required and must be a `GraphQLSchema` instance.'',
        expose = False, graphqlErrors = None\<rparr>),
      \<lparr>request_body = JObj [(''query'', JStr ''{ hello }'')], response_status = 404,
       response_body = None, app_errors = [],
       calls = [CallParse (JStr ''{ hello }''), CallOverride 4, CallCheckSchema (JObj [])]\<rparr>)"
proof -
  let ?x = "demo_ctx (JObj [(''query'', JStr ''{ hello }'')])"
  let ?xd = "trace_call (CallParse (JStr ''{ hello }'')) ?x"
  have d: "execute_document demo_engine ?x = (Inr (JStr ''{ hello }''), ?xd)"
    by (simp add: execute_document_Inr demo_ctx_def demo_engine_def isEnumerableObject_def
        has_key_def Object_keys_def get_def get_prop_def)
  have a2: "apply_fn demo_engine 2 ?xd = Inr (JNum 42)"
    and a3: "apply_fn demo_engine 3 ?xd = Inr (JObj [(''override'', JFun 0)])"
    and a4: "apply_fn demo_engine 4 ?xd = Inr (JObj [(''schema'', JObj [])])"
    by (simp_all add: demo_engine_def)
  have c: "checkSchema demo_engine (JObj []) =
      Some \<lparr>status = 500,
            message = ''GraphQL schema is required and must be a `GraphQLSchema` instance.'',
            expose = False, graphqlErrors = None\<rparr>"
    by (simp add: checkSchema_def instanceof_GraphQLSchema_def createError_def)
  note t2 = override_result_is_checked[OF d a2, where staticOptions = "[(''schema'', demo_schema)]"
      and ?next = noop and options = "JObj [(''schema'', demo_schema), (''override'', JFun 2)]"]
  note t3 = override_result_is_checked[OF d a3, where staticOptions = "[(''schema'', demo_schema)]"
      and ?next = noop and options = "JObj []"]
  note t4 = override_result_is_checked[OF d a4, where staticOptions = "[(''schema'', demo_schema)]"
      and ?next = noop and options = "JObj []"]
  have i2: "index_execute_middleware demo_engine
              (JObj [(''schema'', demo_schema), (''override'', JFun 2)]) noop ?x =
     (Some (HttpError \<lparr>status = 500,
        message = ''GraphQL execute middleware options must be an object, or an object promise.'',
        expose = False, graphqlErrors = None\<rparr>), trace_call (CallOverride 2) ?xd)"
    using t2 by (simp add: isPlainObject_def get_def get_prop_def)
  have e2: "case fst (execute_middleware demo_engine (JFun 2) [(''schema'', demo_schema)] noop ?x) of
        Some (HttpError e) \<Rightarrow> status e = 500 \<and> \<not> expose e
      | _ \<Rightarrow> False"
    using t2 by (auto simp: isEnumerableObject_def)
  have e3: "execute_middleware demo_engine (JFun 3) [(''schema'', demo_schema)] noop ?x =
     (Some (HttpError \<lparr>status = 500,
        message = ''GraphQL execute middleware `override` option resolved options invalid: `override`.'',
        expose = False, graphqlErrors = None\<rparr>), trace_call (CallOverride 3) ?xd)"
    using t3 by (simp add: isEnumerableObject_def Object_keys_def)
  have e4: "execute_middleware demo_engine (JFun 4) [(''schema'', demo_schema)] noop ?x =
     (Some (HttpError \<lparr>status = 500,
        message = ''GraphQL schema is required and must be a `GraphQLSchema` instance.'',
        expose = False, graphqlErrors = None\<rparr>),
      trace_call (CallCheckSchema (JObj [])) (trace_call (CallOverride 4) ?xd))"
    using t4 c by (simp add: isEnumerableObject_def Object_keys_def get_def get_prop_def)
  show ?thesis
    unfolding i2 e3 e4 using e2 by (simp add: trace_call_def demo_ctx_def)
qed

section \<open>The execution and the response\<close>

text \<open>
  The claim C8 has the document executed by an \<open>executeFn\<close> taken from the merged
  options. There is no such option. The setup refuses options that carry the key, and
  the middleware does not read it: given static options that hold an \<open>executeFn\<close>, it
  still calls \<open>executeGraphQL\<close>, as the trace and the data show.
\<close>

theorem executeFn_not_an_option_counterexample:
  "execute demo_engine (JObj [(''schema'', demo_schema), (''executeFn'', JFun 9)]) =
     Inl \<lparr>status = 500,
          message = ''GraphQL execute middleware options invalid: `executeFn`.'',
          expose = False, graphqlErrors = None\<rparr>
   \<and> execute_middleware demo_engine JUndefined
       [(''schema'', demo_schema), (''executeFn'', JFun 9)] noop
       (demo_ctx (JObj [(''query'', JStr ''{ hello }'')])) =
     (None,
      \<lparr>request_body = JObj [(''query'', JStr ''{ hello }'')], response_status = 200,
       response_body = Some [(''data'', JObj [(''hello'', JStr ''world'')])], app_errors = [],
       calls = [CallParse (JStr ''{ hello }''), CallValidate demo_schema (JStr ''{ hello }''),
                CallExecute \<lparr>schema = demo_schema, rootValue = JUndefined,
                              contextValue = JUndefined, fieldResolver = JUndefined,
                              document = JStr ''{ hello }'', variableValues = JUndefined,
                              operationName = JUndefined\<rparr>]\<rparr>)"
  by (simp add: execute_def checkOptions_helper_def checkOptions_eq isEnumerableObject_def
      Object_keys_def ALLOWED_EXECUTE_OPTIONS_def execute_middleware_def execute_prepare_def
      execute_document_def overrideOptions_of_def execute_validate_def execute_run_def
      has_key_def get_def get_prop_def requestOptions_of_def spread_def demo_engine_def
      demo_ctx_def demo_schema_def trace_call_def noop_def Let_def)

text \<open>
  C8, amended. Let the setup \<open>execute(options)\<close> return the middleware \<open>mw\<close>, and let a
  request reach the execution step with the argument \<open>args\<close>. Then \<open>mw\<close> adds the call
  of \<open>executeGraphQL\<close> on \<open>args\<close> to the trace, and its outcome is the outcome of
  \<open>executeGraphQL env args\<close>, the execution function of the package graphql: a throw
  becomes the error of status 400, a result is written and, with errors, thrown with
  status 200, and otherwise handed to the next middleware with status 200. The fields of
  \<open>args\<close> are the \<open>schema\<close>, \<open>rootValue\<close>, \<open>contextValue\<close> and \<open>fieldResolver\<close> of the
  merged options, the parsed document, the body's \<open>variables\<close> as \<open>variableValues\<close> and
  the body's \<open>operationName\<close>. The merged options have no \<open>executeFn\<close>.
\<close>

theorem execution_call_arguments:
  assumes "execute env options = Inr mw"
    and "execute_prepare env (get options ''override'') (staticOptions_of options) x = (Inr args, xv)"
  shows "mw next x =
           (case executeGraphQL env args of
              Inl m \<Rightarrow>
                (Some (HttpError \<lparr>status = 400,
                         message = ''GraphQL operation field invalid: '' @ m,
                         expose = True, graphqlErrors = None\<rparr>),
                 xv\<lparr>calls := calls xv @ [CallExecute args]\<rparr>)
            | Inr r \<Rightarrow>
                (case errors r of
                   Some es \<Rightarrow>
                     (Some (HttpError \<lparr>status = 200, message = ''GraphQL errors.'',
                              expose = True, graphqlErrors = Some es\<rparr>),
                      (if truthy (data r)
                       then xv\<lparr>calls := calls xv @ [CallExecute args],
                               response_body := Some [(''data'', data r)]\<rparr>
                       else xv\<lparr>calls := calls xv @ [CallExecute args]\<rparr>))
                 | None \<Rightarrow>
                     next (if truthy (data r)
                           then xv\<lparr>calls := calls xv @ [CallExecute args],
                                   response_body := Some [(''data'', data r)],
                                   response_status := 200\<rparr>
                           else xv\<lparr>calls := calls xv @ [CallExecute args],
                                   response_status := 200\<rparr>)))
       \<and> (\<exists>doc xd ov xo.
            execute_document env x = (Inr doc, xd) \<and>
            overrideOptions_of env (get options ''override'') xd = (Inr ov, xo) \<and>
            args = \<lparr>schema = get_prop (requestOptions_of (staticOptions_of options) ov) ''schema'',
                    rootValue = get_prop (requestOptions_of (staticOptions_of options) ov) ''rootValue'',
                    contextValue =
                      get_prop (requestOptions_of (staticOptions_of options) ov) ''contextValue'',
                    fieldResolver =
                      get_prop (requestOptions_of (staticOptions_of options) ov) ''fieldResolver'',
                    document = doc,
                    variableValues = get (request_body x) ''variables'',
                    operationName = get (request_body x) ''operationName''\<rparr> \<and>
            get_prop (requestOptions_of (staticOptions_of options) ov) ''executeFn'' = JUndefined)"
proof -
  from assms(1)
  have mw: "mw = execute_middleware env (get options ''override'') (staticOptions_of options)"
    by (auto simp: execute_def split: if_splits option.splits)
  have run: "execute_run env args next xv =
           (case executeGraphQL env args of
              Inl m \<Rightarrow>
                (Some (HttpError \<lparr>status = 400,
                         message = ''GraphQL operation field invalid: '' @ m,
                         expose = True, graphqlErrors = None\<rparr>),
                 xv\<lparr>calls := calls xv @ [CallExecute args]\<rparr>)
            | Inr r \<Rightarrow>
                (case errors r of
                   Some es \<Rightarrow>
                     (Some (HttpError \<lparr>status = 200, message = ''GraphQL errors.'',
                              expose = True, graphqlErrors = Some es\<rparr>),
                      (if truthy (data r)
                       then xv\<lparr>calls := calls xv @ [CallExecute args],
                               response_body := Some [(''data'', data r)]\<rparr>
                       else xv\<lparr>calls := calls xv @ [CallExecute args]\<rparr>))
                 | None \<Rightarrow>
                     next (if truthy (data r)
                           then xv\<lparr>calls := calls xv @ [CallExecute args],
                                   response_body := Some [(''data'', data r)],
                                   response_status := 200\<rparr>
                           else xv\<lparr>calls := calls xv @ [CallExecute args],
                                   response_status := 200\<rparr>)))"
    by (simp add: execute_run_def trace_call_def createHttpError_def createError_def Let_def
        split: sum.splits option.splits)
  from assms(1)
  have "checkOptions_helper options ALLOWED_EXECUTE_OPTIONS ''GraphQL execute middleware'' = None"
    by (auto simp: execute_def split: if_splits option.splits)
  then have keys: "set (Object_keys options) \<subseteq> set ALLOWED_EXECUTE_OPTIONS"
    by (auto simp: checkOptions_helper_def checkOptions_None_iff split: if_splits)
  have static: "''executeFn'' \<notin> fst ` set (staticOptions_of options)"
    using keys by (auto simp: staticOptions_of_def Object_keys_def ALLOWED_EXECUTE_OPTIONS_def)
  from assms(2) obtain doc xd ov xo where
    d: "execute_document env x = (Inr doc, xd)" and
    o: "overrideOptions_of env (get options ''override'') xd = (Inr ov, xo)" and
    v: "execute_validate env (staticOptions_of options) ov doc xo = (Inr args, xv)"
    by (rule execute_prepare_Inr)
  from d have "request_body xd = request_body x"
    by (simp add: execute_document_Inr trace_call_def)
  with overrideOptions_of_request_body[OF o] have rb: "request_body xo = request_body x"
    by simp
  from overrideOptions_of_Inr_keys[OF o] have "''executeFn'' \<notin> fst ` set (props_of ov)"
    by (auto simp: Object_keys_def)
  then have "map_of (props_of ov) ''executeFn'' = None"
    by (simp add: map_of_eq_None_iff)
  with static have unset:
    "get_prop (requestOptions_of (staticOptions_of options) ov) ''executeFn'' = JUndefined"
    by (simp add: get_prop_requestOptions_of get_prop_absent)
  from execute_validate_Inr[OF v] rb d o unset
  have ex: "\<exists>doc xd ov xo.
            execute_document env x = (Inr doc, xd) \<and>
            overrideOptions_of env (get options ''override'') xd = (Inr ov, xo) \<and>
            args = \<lparr>schema = get_prop (requestOptions_of (staticOptions_of options) ov) ''schema'',
                    rootValue = get_prop (requestOptions_of (staticOptions_of options) ov) ''rootValue'',
                    contextValue =
                      get_prop (requestOptions_of (staticOptions_of options) ov) ''contextValue'',
                    fieldResolver =
                      get_prop (requestOptions_of (staticOptions_of options) ov) ''fieldResolver'',
                    document = doc,
                    variableValues = get (request_body x) ''variables'',
                    operationName = get (request_body x) ''operationName''\<rparr> \<and>
            get_prop (requestOptions_of (staticOptions_of options) ov) ''executeFn'' = JUndefined"
    by (intro exI[of _ doc] exI[of _ xd] exI[of _ ov] exI[of _ xo]) simp
  from mw execute_middleware_runs[OF assms(2)] run
  have "mw next x =
           (case executeGraphQL env args of
              Inl m \<Rightarrow>
                (Some (HttpError \<lparr>status = 400,
                         message = ''GraphQL operation field invalid: '' @ m,
                         expose = True, graphqlErrors = None\<rparr>),
                 xv\<lparr>calls := calls xv @ [CallExecute args]\<rparr>)
            | Inr r \<Rightarrow>
                (case errors r of
                   Some es \<Rightarrow>
                     (Some (HttpError \<lparr>status = 200, message = ''GraphQL errors.'',
                              expose = True, graphqlErrors = Some es\<rparr>),
                      (if truthy (data r)
                       then xv\<lparr>calls := calls xv @ [CallExecute args],
                               response_body := Some [(''data'', data r)]\<rparr>
                       else xv\<lparr>calls := calls xv @ [CallExecute args]\<rparr>))
                 | None \<Rightarrow>
                     next (if truthy (data r)
                           then xv\<lparr>calls := calls xv @ [CallExecute args],
                                   response_body := Some [(''data'', data r)],
                                   response_status := 200\<rparr>
                           else xv\<lparr>calls := calls xv @ [CallExecute args],
                                   response_status := 200\<rparr>)))"
    by simp
  then show ?thesis using ex by (rule conjI)
qed

theorem execution_call_arguments_witness:
  "execute demo_engine (JObj [(''schema'', demo_schema), (''rootValue'', JNum 1),
                              (''override'', JFun 0)]) =
     Inr (execute_middleware demo_engine (JFun 0)
            [(''schema'', demo_schema), (''rootValue'', JNum 1)])
   \<and> execute_middleware demo_engine (JFun 0) [(''schema'', demo_schema), (''rootValue'', JNum 1)]
       noop (demo_ctx (JObj [(''query'', JStr ''{ hello }''), (''variables'', JObj []),
                             (''operationName'', JStr ''Q'')])) =
     (None,
      \<lparr>request_body = JObj [(''query'', JStr ''{ hello }''), (''variables'', JObj []),
                            (''operationName'', JStr ''Q'')],
       response_status = 200,
       response_body = Some [(''data'', JObj [(''hello'', JStr ''world'')])], app_errors = [],
       calls = [CallParse (JStr ''{ hello }''), CallOverride 0,
                CallValidate demo_schema (JStr ''{ hello }''),
                CallExecute \<lparr>schema = demo_schema, rootValue = JNum 1,
                              contextValue = JStr ''user'', fieldResolver = JUndefined,
                              document = JStr ''{ hello }'', variableValues = JObj [],
                              operationName = JStr ''Q''\<rparr>]\<rparr>)"
proof -
  let ?options = "JObj [(''schema'', demo_schema), (''rootValue'', JNum 1), (''override'', JFun 0)]"
  let ?static = "[(''schema'', demo_schema), (''rootValue'', JNum 1)]"
  let ?x = "demo_ctx (JObj [(''query'', JStr ''{ hello }''), (''variables'', JObj []),
                            (''operationName'', JStr ''Q'')])"
  have s: "execute demo_engine ?options = Inr (execute_middleware demo_engine (JFun 0) ?static)"
    by (simp add: execute_def checkOptions_helper_def checkOptions_eq isEnumerableObject_def
        Object_keys_def ALLOWED_EXECUTE_OPTIONS_def get_def get_prop_def checkSchema_def
        instanceof_GraphQLSchema_def demo_schema_def demo_engine_def staticOptions_of_def)
  have g: "get ?options ''override'' = JFun 0" "staticOptions_of ?options = ?static"
    by (simp_all add: get_def get_prop_def staticOptions_of_def)
  have p: "execute_prepare demo_engine (JFun 0) ?static ?x =
      (Inr \<lparr>schema = demo_schema, rootValue = JNum 1, contextValue = JStr ''user'',
            fieldResolver = JUndefined, document = JStr ''{ hello }'', variableValues = JObj [],
            operationName = JStr ''Q''\<rparr>,
       trace_call (CallValidate demo_schema (JStr ''{ hello }''))
         (trace_call (CallOverride 0) (trace_call (CallParse (JStr ''{ hello }'')) ?x)))"
    by (simp add: execute_prepare_def execute_document_def overrideOptions_of_JFun
        execute_validate_def checkOptions_helper_def checkOptions_eq allowed_without_override
        isEnumerableObject_def has_key_def Object_keys_def get_def get_prop_def
        requestOptions_of_def spread_def demo_engine_def demo_ctx_def demo_schema_def
        trace_call_def Let_def)
  have r: "executeGraphQL demo_engine
             \<lparr>schema = demo_schema, rootValue = JNum 1, contextValue = JStr ''user'',
              fieldResolver = JUndefined, document = JStr ''{ hello }'', variableValues = JObj [],
              operationName = JStr ''Q''\<rparr> =
           Inr \<lparr>data = JObj [(''hello'', JStr ''world'')], errors = None\<rparr>"
    by (simp add: demo_engine_def)
  from execution_call_arguments[where ?next = noop, OF s, unfolded g, OF p, THEN conjunct1] s
  show ?thesis
    by (simp add: r noop_def trace_call_def demo_ctx_def)
qed

text \<open>
  C2. A request that reaches the execution step and whose execution result carries
  \<open>errors\<close> fails with the error of status 200, exposed, that carries all of them as
  \<open>graphqlErrors\<close>. Behind \<open>errorHandler\<close> the response has status 200 and the body's
  \<open>errors\<close> is the list of every execution error, formatted; when the result carried data
  (line 122 wrote it before the throw), the body is that data followed by the errors.
\<close>

theorem execution_errors_status_200:
  assumes "execute_prepare env override staticOptions x = (Inr args, xv)"
    and "executeGraphQL env args = Inr r"
    and "errors r = Some es"
  shows "execute_middleware env override staticOptions next x =
           (Some (HttpError \<lparr>status = 200, message = ''GraphQL errors.'', expose = True,
                             graphqlErrors = Some es\<rparr>),
            (if truthy (data r)
             then (trace_call (CallExecute args) xv)\<lparr>response_body := Some [(''data'', data r)]\<rparr>
             else trace_call (CallExecute args) xv))
       \<and> fst (errorHandler (execute_middleware env override staticOptions next) x) = None
       \<and> response_status
           (snd (errorHandler (execute_middleware env override staticOptions next) x)) = 200
       \<and> get_prop (the (response_body
            (snd (errorHandler (execute_middleware env override staticOptions next) x))))
           ''errors'' = JArr (map formatError es)
       \<and> (truthy (data r) \<longrightarrow>
            response_body
              (snd (errorHandler (execute_middleware env override staticOptions next) x)) =
              Some [(''data'', data r), (''errors'', JArr (map formatError es))])"
proof -
  have a: "execute_middleware env override staticOptions next x =
           (Some (HttpError \<lparr>status = 200, message = ''GraphQL errors.'', expose = True,
                             graphqlErrors = Some es\<rparr>),
            (if truthy (data r)
             then (trace_call (CallExecute args) xv)\<lparr>response_body := Some [(''data'', data r)]\<rparr>
             else trace_call (CallExecute args) xv))"
    using assms(2,3)
    by (simp add: execute_middleware_runs[OF assms(1)] execute_run_def Let_def
        createHttpError_def createError_def)
  show ?thesis
    by (simp add: a errorHandler_def coerced_status_def non_error_status_def Let_def
        get_prop_def update_conv')
qed

theorem execution_errors_status_200_witness:
  "response_status (snd (errorHandler
      (execute_middleware demo_engine JUndefined [(''schema'', demo_schema)] noop)
      (demo_ctx (JObj [(''query'', JStr ''{ boom }'')])))) = 200
   \<and> response_body (snd (errorHandler
      (execute_middleware demo_engine JUndefined [(''schema'', demo_schema)] noop)
      (demo_ctx (JObj [(''query'', JStr ''{ boom }'')])))) =
     Some [(''data'', JObj [(''boom'', JNull)]),
           (''errors'', JArr [JObj [(''message'', JStr ''Resolver failed.''),
                                    (''locations'', JUndefined), (''path'', JUndefined)]])]"
proof -
  let ?x = "demo_ctx (JObj [(''query'', JStr ''{ boom }'')])"
  let ?args = "\<lparr>schema = demo_schema, rootValue = JUndefined, contextValue = JUndefined,
                fieldResolver = JUndefined, document = JStr ''{ boom }'',
                variableValues = JUndefined, operationName = JUndefined\<rparr>"
  have p: "execute_prepare demo_engine JUndefined [(''schema'', demo_schema)] ?x =
      (Inr ?args, trace_call (CallValidate demo_schema (JStr ''{ boom }''))
                    (trace_call (CallParse (JStr ''{ boom }'')) ?x))"
    by (simp add: execute_prepare_def execute_document_def overrideOptions_of_def
        execute_validate_def isEnumerableObject_def has_key_def Object_keys_def get_def
        get_prop_def requestOptions_of_def spread_def demo_engine_def demo_ctx_def
        demo_schema_def trace_call_def Let_def)
  have r: "executeGraphQL demo_engine ?args =
      Inr \<lparr>data = JObj [(''boom'', JNull)], errors = Some [demo_error ''Resolver failed.'']\<rparr>"
    by (simp add: demo_engine_def)
  from execution_errors_status_200[where ?next = noop, OF p r]
  show ?thesis
    by (simp add: formatError_def demo_error_def)
qed

text \<open>
  C9. A request that reaches the execution step and whose execution result carries data
  (\<open>result.data\<close> is truthy, the test of line 122; data is an object or \<open>null\<close>, and
  \<open>null\<close> is no data) has \<open>{ data }\<close> written as the response body. With no errors in the
  result (the engine leaves \<open>errors\<close> out), the middleware sets the status 200 and hands
  to the next middleware a response of status 200 whose body holds the data only. With
  errors, the body holds the data only when the middleware throws.
\<close>

theorem execution_data_written:
  assumes "execute_prepare env override staticOptions x = (Inr args, xv)"
    and "executeGraphQL env args = Inr r"
    and "truthy (data r)"
  shows "(errors r = None \<longrightarrow>
            execute_middleware env override staticOptions next x =
              next ((trace_call (CallExecute args) xv)
                      \<lparr>response_body := Some [(''data'', data r)], response_status := 200\<rparr>))
       \<and> (errors r \<noteq> None \<longrightarrow>
            response_body (snd (execute_middleware env override staticOptions next x)) =
              Some [(''data'', data r)])"
  using assms(2,3)
  by (auto simp: execute_middleware_runs[OF assms(1)] execute_run_def Let_def)

theorem execution_data_written_witness:
  "errorHandler (execute_middleware demo_engine JUndefined [(''schema'', demo_schema)] noop)
     (demo_ctx (JObj [(''query'', JStr ''{ hello }'')])) =
   (None,
    \<lparr>request_body = JObj [(''query'', JStr ''{ hello }'')], response_status = 200,
     response_body = Some [(''data'', JObj [(''hello'', JStr ''world'')])], app_errors = [],
     calls = [CallParse (JStr ''{ hello }''), CallValidate demo_schema (JStr ''{ hello }''),
              CallExecute \<lparr>schema = demo_schema, rootValue = JUndefined,
                            contextValue = JUndefined, fieldResolver = JUndefined,
                            document = JStr ''{ hello }'', variableValues = JUndefined,
                            operationName = JUndefined\<rparr>]\<rparr>)"
proof -
  let ?x = "demo_ctx (JObj [(''query'', JStr ''{ hello }'')])"
  let ?args = "\<lparr>schema = demo_schema, rootValue = JUndefined, contextValue = JUndefined,
                fieldResolver = JUndefined, document = JStr ''{ hello }'',
                variableValues = JUndefined, operationName = JUndefined\<rparr>"
  have p: "execute_prepare demo_engine JUndefined [(''schema'', demo_schema)] ?x =
      (Inr ?args, trace_call (CallValidate demo_schema (JStr ''{ hello }''))
                    (trace_call (CallParse (JStr ''{ hello }'')) ?x))"
    by (simp add: execute_prepare_def execute_document_def overrideOptions_of_def
        execute_validate_def isEnumerableObject_def has_key_def Object_keys_def get_def
        get_prop_def requestOptions_of_def spread_def demo_engine_def demo_ctx_def
        demo_schema_def trace_call_def Let_def)
  have r: "executeGraphQL demo_engine ?args =
      Inr \<lparr>data = JObj [(''hello'', JStr ''world'')], errors = None\<rparr>"
    by (simp add: demo_engine_def)
  from execution_data_written[where ?next = noop, OF p r]
  show ?thesis
    by (simp add: errorHandler_def noop_def trace_call_def demo_ctx_def)
qed

end
